theory Spec2Isabelle
  imports Complex_Main "HOL-Library.Sublist" "HOL-Library.Word"
begin

section \<open>Strings of the JavaScript runtime\<close>

text \<open>
  A JavaScript string is a sequence of UTF-16 code units. A code unit is modelled as a
  natural number, so that the character classes of the regular expressions
  (\<^verbatim>\<open>\s\<close> covers code units beyond Latin-1) can be written out in full. The function
  \<open>js\<close> embeds an ASCII literal of the source.
\<close>

type_synonym code_unit = nat
type_synonym jsstring = "code_unit list"

definition js :: "string \<Rightarrow> jsstring" where
  "js s = map of_char s"

text \<open>
  The decimal rendering of a non-negative integer, as a template literal
  \<^verbatim>\<open>${n}\<close> produces it for an integral number.
\<close>

fun decimal :: "nat \<Rightarrow> jsstring" where
  "decimal n = (if n < 10 then [48 + n] else decimal (n div 10) @ [48 + n mod 10])"

declare decimal.simps [simp del]

section \<open>src/utils/rateLimiter.ts\<close>

text \<open>
  \<^verbatim>\<open>interface RateLimitWindow { requests: number[] }\<close>; the timestamps are the
  integral millisecond counts that \<^verbatim>\<open>Date.now()\<close> returns. The private field
  \<^verbatim>\<open>windows: Map<string, RateLimitWindow>\<close> is the whole state of the class.
\<close>

record RateLimitWindow =
  requests :: "int list"

type_synonym Windows = "jsstring \<rightharpoonup> RateLimitWindow"

record CheckResult =
  allowed :: bool
  error :: "jsstring option"

record Remaining =
  minute :: int
  hour :: int

definition minuteLimit :: nat where
  "minuteLimit = 20"

definition hourLimit :: nat where
  "hourLimit = 300"

definition minuteWindow :: int where
  "minuteWindow = 60 * 1000"

definition hourWindow :: int where
  "hourWindow = 60 * 60 * 1000"

text \<open>
  \<^verbatim>\<open>cleanOldRequests\<close> reads the clock itself; \<open>now\<close> is the value that this
  reading of \<^verbatim>\<open>Date.now()\<close> returns.
\<close>

definition cleanOldRequests :: "int \<Rightarrow> int list \<Rightarrow> int \<Rightarrow> int list" where
  "cleanOldRequests now reqs windowMs = filter (\<lambda>timestamp. now - timestamp < windowMs) reqs"

text \<open>
  \<^verbatim>\<open>canMakeRequest\<close> reads the clock three times: \<open>now\<close> at its first line, then
  once in each call of \<^verbatim>\<open>cleanOldRequests\<close> (\<open>nowH\<close> for the hour window,
  \<open>nowM\<close> for the minute window). The three readings are arguments of the model, in
  this order; the model returns the result and the updated map.
\<close>

definition canMakeRequest ::
  "Windows \<Rightarrow> jsstring \<Rightarrow> int \<Rightarrow> int \<Rightarrow> int \<Rightarrow> CheckResult \<times> Windows" where
  "canMakeRequest windows identifier now nowH nowM =
    (let windows1 = (if windows identifier = None
                     then windows(identifier \<mapsto> \<lparr>requests = []\<rparr>) else windows);
         window = (case windows1 identifier of Some w \<Rightarrow> w | None \<Rightarrow> \<lparr>requests = []\<rparr>);
         window' = window\<lparr>requests := cleanOldRequests nowH (requests window) hourWindow\<rparr>;
         windows2 = windows1(identifier \<mapsto> window');
         recentMinuteRequests = cleanOldRequests nowM (requests window') minuteWindow;
         recentHourRequests = requests window'
     in if length recentMinuteRequests \<ge> minuteLimit then
          (\<lparr>allowed = False,
            error = Some (js ''Rate limit exceeded: '' @ decimal minuteLimit
                          @ js '' requests per minute'')\<rparr>, windows2)
        else if length recentHourRequests \<ge> hourLimit then
          (\<lparr>allowed = False,
            error = Some (js ''Rate limit exceeded: '' @ decimal hourLimit
                          @ js '' requests per hour'')\<rparr>, windows2)
        else
          (\<lparr>allowed = True, error = None\<rparr>,
           windows2(identifier \<mapsto> window'\<lparr>requests := requests window' @ [now]\<rparr>)))"

text \<open>
  \<^verbatim>\<open>getRemainingRequests\<close> reads the clock once at its own line (a value it never
  uses) and once in each call of \<^verbatim>\<open>cleanOldRequests\<close>: \<open>nowM\<close> for the minute
  window, then \<open>nowH\<close> for the hour window. It writes nothing; the model returns the
  map next to the result so that this is a statement and not a convention.
\<close>

definition getRemainingRequests ::
  "Windows \<Rightarrow> jsstring \<Rightarrow> int \<Rightarrow> int \<Rightarrow> Remaining \<times> Windows" where
  "getRemainingRequests windows identifier nowM nowH =
    (case windows identifier of
       None \<Rightarrow> (\<lparr>minute = int minuteLimit, hour = int hourLimit\<rparr>, windows)
     | Some window \<Rightarrow>
         (let recentMinuteRequests = cleanOldRequests nowM (requests window) minuteWindow;
              recentHourRequests = cleanOldRequests nowH (requests window) hourWindow
          in (\<lparr>minute = max 0 (int minuteLimit - int (length recentMinuteRequests)),
               hour = max 0 (int hourLimit - int (length recentHourRequests))\<rparr>, windows)))"

text \<open>
  The timestamps recorded for an identifier (none for an identifier never seen), and a
  run of consecutive checks of one identifier, each with its three clock readings.
\<close>

definition recorded :: "Windows \<Rightarrow> jsstring \<Rightarrow> int list" where
  "recorded windows identifier =
    (case windows identifier of None \<Rightarrow> [] | Some w \<Rightarrow> requests w)"

fun checks :: "Windows \<Rightarrow> jsstring \<Rightarrow> (int \<times> int \<times> int) list \<Rightarrow> CheckResult list \<times> Windows" where
  "checks windows identifier [] = ([], windows)"
| "checks windows identifier ((now, nowH, nowM) # clock) =
    (let (r, windows') = canMakeRequest windows identifier now nowH nowM;
         (rs, windows'') = checks windows' identifier clock
     in (r # rs, windows''))"

definition inside :: "int \<Rightarrow> int \<Rightarrow> (int \<times> int \<times> int) \<Rightarrow> bool" where
  "inside t len c = (case c of (now, nowH, nowM) \<Rightarrow>
     t \<le> now \<and> now < t + len \<and> t \<le> nowH \<and> nowH < t + len \<and> t \<le> nowM \<and> nowM < t + len)"

section \<open>src/services/pdfService.ts\<close>

text \<open>
  A \<^verbatim>\<open>Buffer\<close> is a sequence of bytes. \<^verbatim>\<open>buffer.toString()\<close> decodes it as UTF-8
  into code units, with U+FFFD for every ill-formed subsequence: the decoder is the
  state machine of the Encoding standard (bytes still needed, code point so far, the
  bounds of the next continuation byte), a byte that breaks a sequence being read again
  from the start state.
\<close>

type_synonym byte = "8 word"

datatype utf8_state = Start | Need nat nat nat nat

definition utf8_start :: "nat \<Rightarrow> jsstring \<times> utf8_state" where
  "utf8_start b =
    (if b < 0x80 then ([b], Start)
     else if 0xC2 \<le> b \<and> b \<le> 0xDF then ([], Need 1 (b - 0xC0) 0x80 0xBF)
     else if 0xE0 \<le> b \<and> b \<le> 0xEF then
       ([], Need 2 (b - 0xE0) (if b = 0xE0 then 0xA0 else 0x80) (if b = 0xED then 0x9F else 0xBF))
     else if 0xF0 \<le> b \<and> b \<le> 0xF4 then
       ([], Need 3 (b - 0xF0) (if b = 0xF0 then 0x90 else 0x80) (if b = 0xF4 then 0x8F else 0xBF))
     else ([0xFFFD], Start))"

definition utf16 :: "nat \<Rightarrow> jsstring" where
  "utf16 cp = (if cp < 0x10000 then [cp]
               else [0xD800 + (cp - 0x10000) div 1024, 0xDC00 + (cp - 0x10000) mod 1024])"

fun utf8_step :: "utf8_state \<Rightarrow> nat \<Rightarrow> jsstring \<times> utf8_state" where
  "utf8_step Start b = utf8_start b"
| "utf8_step (Need n cp lower upper) b =
    (if lower \<le> b \<and> b \<le> upper then
       (if n = 1 then (utf16 (cp * 64 + (b - 0x80)), Start)
        else ([], Need (n - 1) (cp * 64 + (b - 0x80)) 0x80 0xBF))
     else (0xFFFD # fst (utf8_start b), snd (utf8_start b)))"

fun utf8_run :: "utf8_state \<Rightarrow> nat list \<Rightarrow> jsstring" where
  "utf8_run s [] = (if s = Start then [] else [0xFFFD])"
| "utf8_run s (b # bs) = fst (utf8_step s b) @ utf8_run (snd (utf8_step s b)) bs"

definition Buffer_toString :: "byte list \<Rightarrow> jsstring" where
  "Buffer_toString buffer = utf8_run Start (map unat buffer)"

definition ascii :: "string \<Rightarrow> byte list" where
  "ascii s = map of_char s"

text \<open>
  The field \<^verbatim>\<open>error\<close> of the validation result is \<open>error_pdf\<close> here, the name
  \<open>error\<close> being the field of the rate limiter's result.
\<close>

record ValidationResult =
  isValid :: bool
  error_pdf :: "jsstring option"

definition validatePDF :: "byte list \<Rightarrow> ValidationResult" where
  "validatePDF buffer =
    (let pdfHeader = Buffer_toString (take 4 buffer) in
     if pdfHeader \<noteq> js ''%PDF'' then
       \<lparr>isValid = False, error_pdf = Some (js ''Invalid PDF format'')\<rparr>
     else
       (let maxSize = 10 * 1024 * 1024 in
        if length buffer > maxSize then
          \<lparr>isValid = False, error_pdf = Some (js ''PDF file too large (max 10MB)'')\<rparr>
        else \<lparr>isValid = True, error_pdf = None\<rparr>))"

text \<open>
  The class \<^verbatim>\<open>\s\<close> of a regular expression, which is also what \<^verbatim>\<open>trim\<close> removes:
  the white space and line terminator code units of ECMAScript.
\<close>

definition isSpace :: "code_unit \<Rightarrow> bool" where
  "isSpace c \<longleftrightarrow>
     c = 0x09 \<or> c = 0x0A \<or> c = 0x0B \<or> c = 0x0C \<or> c = 0x0D \<or> c = 0x20 \<or> c = 0xA0
     \<or> c = 0x1680 \<or> (0x2000 \<le> c \<and> c \<le> 0x200A) \<or> c = 0x2028 \<or> c = 0x2029
     \<or> c = 0x202F \<or> c = 0x205F \<or> c = 0x3000 \<or> c = 0xFEFF"

text \<open>
  \<^verbatim>\<open>.replace(/\r\n|\r|\n/g, ' ')\<close>: at each position the alternatives are tried in
  order, so a carriage return followed by a line feed becomes one space.
\<close>

fun replace_linebreaks :: "jsstring \<Rightarrow> jsstring" where
  "replace_linebreaks [] = []"
| "replace_linebreaks [c] = (if c = 0x0D \<or> c = 0x0A then [0x20] else [c])"
| "replace_linebreaks (c # d # cs) =
    (if c = 0x0D \<and> d = 0x0A then 0x20 # replace_linebreaks cs
     else if c = 0x0D \<or> c = 0x0A then 0x20 # replace_linebreaks (d # cs)
     else c # replace_linebreaks (d # cs))"

text \<open>
  \<^verbatim>\<open>.replace(/\s+/g, ' ')\<close>: every maximal run of white space becomes one space.
\<close>

function replace_spaces :: "jsstring \<Rightarrow> jsstring" where
  "replace_spaces [] = []"
| "replace_spaces (c # cs) =
    (if isSpace c then 0x20 # replace_spaces (dropWhile isSpace cs)
     else c # replace_spaces cs)"
  by pat_completeness auto
termination
  by (relation "measure length") (auto simp: le_imp_less_Suc length_dropWhile_le)

definition trim :: "jsstring \<Rightarrow> jsstring" where
  "trim s = rev (dropWhile isSpace (rev (dropWhile isSpace s)))"

definition cleanText :: "jsstring \<Rightarrow> jsstring" where
  "cleanText text = trim (replace_spaces (replace_linebreaks text))"

section \<open>The JavaScript runtime under src/services/aiService.ts\<close>

text \<open>
  The values that \<^verbatim>\<open>JSON.parse\<close> returns. A number is the exact rational that its
  literal denotes; the rounding to a binary64 value is not modelled. An object is the
  list of its members in the order of their first occurrence, each key once.
\<close>

datatype json =
    JNull
  | JBool bool
  | JNumber rat
  | JString jsstring
  | JArray "json list"
  | JObject "(jsstring \<times> json) list"

text \<open>
  The number literal of JSON: an optional minus sign, an integer part with no leading
  zero, an optional fraction with at least one digit, an optional exponent.
\<close>

definition isDigit :: "code_unit \<Rightarrow> bool" where
  "isDigit c \<longleftrightarrow> 0x30 \<le> c \<and> c \<le> 0x39"

definition digits_value :: "jsstring \<Rightarrow> nat" where
  "digits_value ds = foldl (\<lambda>a d. 10 * a + (d - 0x30)) 0 ds"

definition scale10 :: "int \<Rightarrow> int \<Rightarrow> rat" where
  "scale10 m e = (if 0 \<le> e then of_int m * 10 ^ nat e else of_int m / 10 ^ nat (- e))"

definition exponent_part :: "jsstring \<Rightarrow> int option" where
  "exponent_part r =
    (case r of
       [] \<Rightarrow> Some 0
     | e # r1 \<Rightarrow>
         if e = 0x65 \<or> e = 0x45 then
           (let neg = (r1 \<noteq> [] \<and> hd r1 = 0x2D);
                r2 = (if r1 \<noteq> [] \<and> (hd r1 = 0x2D \<or> hd r1 = 0x2B) then tl r1 else r1)
            in if r2 \<noteq> [] \<and> list_all isDigit r2
               then Some (if neg then - int (digits_value r2) else int (digits_value r2))
               else None)
         else None)"

definition json_number :: "jsstring \<Rightarrow> rat option" where
  "json_number cs =
    (let neg = (cs \<noteq> [] \<and> hd cs = 0x2D);
         r0 = (if neg then tl cs else cs);
         ip = takeWhile isDigit r0;
         r1 = dropWhile isDigit r0;
         dot = (r1 \<noteq> [] \<and> hd r1 = 0x2E);
         fp = (if dot then takeWhile isDigit (tl r1) else []);
         r2 = (if dot then dropWhile isDigit (tl r1) else r1)
     in if ip = [] \<or> (1 < length ip \<and> hd ip = 0x30) \<or> (dot \<and> fp = []) then None
        else (case exponent_part r2 of
                None \<Rightarrow> None
              | Some e \<Rightarrow>
                  Some (scale10 ((if neg then - 1 else 1) * int (digits_value (ip @ fp)))
                          (e - int (length fp)))))"

text \<open>
  The lexical grammar of JSON as a state machine over the code units: white space is
  space, tab, line feed and carriage return; a string has no unescaped control
  character; the escapes are those of ECMA-404. A number or a literal name ends at the
  first code unit that cannot continue it, and that code unit is then read from the
  start state.
\<close>

datatype token =
    TLBrace | TRBrace | TLBracket | TRBracket | TColon | TComma
  | TString jsstring | TNumber rat | TTrue | TFalse | TNull

datatype lexstate =
    LStart
  | LString jsstring
  | LEscape jsstring
  | LUnicode jsstring nat nat
  | LNumber jsstring
  | LWord jsstring

definition hexval :: "code_unit \<Rightarrow> nat option" where
  "hexval c =
    (if 0x30 \<le> c \<and> c \<le> 0x39 then Some (c - 0x30)
     else if 0x41 \<le> c \<and> c \<le> 0x46 then Some (c - 0x41 + 10)
     else if 0x61 \<le> c \<and> c \<le> 0x66 then Some (c - 0x61 + 10)
     else None)"

definition lex_start :: "code_unit \<Rightarrow> (token list \<times> lexstate) option" where
  "lex_start c =
    (if c = 0x20 \<or> c = 0x09 \<or> c = 0x0A \<or> c = 0x0D then Some ([], LStart)
     else if c = 0x7B then Some ([TLBrace], LStart)
     else if c = 0x7D then Some ([TRBrace], LStart)
     else if c = 0x5B then Some ([TLBracket], LStart)
     else if c = 0x5D then Some ([TRBracket], LStart)
     else if c = 0x3A then Some ([TColon], LStart)
     else if c = 0x2C then Some ([TComma], LStart)
     else if c = 0x22 then Some ([], LString [])
     else if c = 0x2D \<or> isDigit c then Some ([], LNumber [c])
     else if 0x61 \<le> c \<and> c \<le> 0x7A then Some ([], LWord [c])
     else None)"

definition word_token :: "jsstring \<Rightarrow> token option" where
  "word_token w =
    (if w = js ''true'' then Some TTrue
     else if w = js ''false'' then Some TFalse
     else if w = js ''null'' then Some TNull
     else None)"

definition number_token :: "jsstring \<Rightarrow> token option" where
  "number_token w = map_option TNumber (json_number w)"

definition escape_char :: "code_unit \<Rightarrow> code_unit option" where
  "escape_char c =
    (if c = 0x22 \<or> c = 0x5C \<or> c = 0x2F then Some c
     else if c = 0x62 then Some 0x08
     else if c = 0x66 then Some 0x0C
     else if c = 0x6E then Some 0x0A
     else if c = 0x72 then Some 0x0D
     else if c = 0x74 then Some 0x09
     else None)"

definition after_token :: "token option \<Rightarrow> code_unit \<Rightarrow> (token list \<times> lexstate) option" where
  "after_token t c =
    (case t of
       None \<Rightarrow> None
     | Some tok \<Rightarrow>
         (case lex_start c of
            None \<Rightarrow> None
          | Some (toks, s) \<Rightarrow> Some (tok # toks, s)))"

fun lex_step :: "lexstate \<Rightarrow> code_unit \<Rightarrow> (token list \<times> lexstate) option" where
  "lex_step LStart c = lex_start c"
| "lex_step (LString acc) c =
    (if c = 0x22 then Some ([TString (rev acc)], LStart)
     else if c = 0x5C then Some ([], LEscape acc)
     else if c < 0x20 then None
     else Some ([], LString (c # acc)))"
| "lex_step (LEscape acc) c =
    (if c = 0x75 then Some ([], LUnicode acc 4 0)
     else (case escape_char c of
             None \<Rightarrow> None
           | Some d \<Rightarrow> Some ([], LString (d # acc))))"
| "lex_step (LUnicode acc n v) c =
    (case hexval c of
       None \<Rightarrow> None
     | Some h \<Rightarrow>
         if n = 1 then Some ([], LString ((v * 16 + h) # acc))
         else Some ([], LUnicode acc (n - 1) (v * 16 + h)))"
| "lex_step (LNumber acc) c =
    (if isDigit c \<or> c = 0x2D \<or> c = 0x2B \<or> c = 0x2E \<or> c = 0x65 \<or> c = 0x45
     then Some ([], LNumber (c # acc))
     else after_token (number_token (rev acc)) c)"
| "lex_step (LWord acc) c =
    (if 0x61 \<le> c \<and> c \<le> 0x7A then Some ([], LWord (c # acc))
     else after_token (word_token (rev acc)) c)"

fun lex_end :: "lexstate \<Rightarrow> token list option" where
  "lex_end LStart = Some []"
| "lex_end (LNumber acc) = map_option (\<lambda>t. [t]) (number_token (rev acc))"
| "lex_end (LWord acc) = map_option (\<lambda>t. [t]) (word_token (rev acc))"
| "lex_end _ = None"

fun lex :: "lexstate \<Rightarrow> jsstring \<Rightarrow> token list option" where
  "lex s [] = lex_end s"
| "lex s (c # cs) =
    (case lex_step s c of
       None \<Rightarrow> None
     | Some (toks, s') \<Rightarrow> map_option ((@) toks) (lex s' cs))"

text \<open>
  The syntactic grammar of JSON as a push-down automaton over the tokens: the stack
  holds the arrays and objects that are still open, the phase says what may come next.
  A member whose key is already present replaces the earlier value, as
  \<^verbatim>\<open>JSON.parse\<close> does.
\<close>

datatype frame = FArray "json list" | FObject "(jsstring \<times> json) list" "jsstring option"

datatype phase = PValue | PValueOrEnd | PKeyOrEnd | PKey | PColon | PCommaOrEnd | PDone json

fun put :: "jsstring \<Rightarrow> json \<Rightarrow> (jsstring \<times> json) list \<Rightarrow> (jsstring \<times> json) list" where
  "put k v [] = [(k, v)]"
| "put k v ((k', v') # ms) = (if k' = k then (k, v) # ms else (k', v') # put k v ms)"

fun deliver :: "json \<Rightarrow> frame list \<Rightarrow> (frame list \<times> phase) option" where
  "deliver v [] = Some ([], PDone v)"
| "deliver v (FArray acc # st) = Some (FArray (v # acc) # st, PCommaOrEnd)"
| "deliver v (FObject ms (Some k) # st) = Some (FObject (put k v ms) None # st, PCommaOrEnd)"
| "deliver v (FObject ms None # st) = None"

definition open_value :: "frame list \<Rightarrow> token \<Rightarrow> (frame list \<times> phase) option" where
  "open_value st t =
    (case t of
       TLBracket \<Rightarrow> Some (FArray [] # st, PValueOrEnd)
     | TLBrace \<Rightarrow> Some (FObject [] None # st, PKeyOrEnd)
     | TString s \<Rightarrow> deliver (JString s) st
     | TNumber q \<Rightarrow> deliver (JNumber q) st
     | TTrue \<Rightarrow> deliver (JBool True) st
     | TFalse \<Rightarrow> deliver (JBool False) st
     | TNull \<Rightarrow> deliver JNull st
     | _ \<Rightarrow> None)"

definition close_array :: "frame list \<Rightarrow> (frame list \<times> phase) option" where
  "close_array st = (case st of FArray acc # st' \<Rightarrow> deliver (JArray (rev acc)) st' | _ \<Rightarrow> None)"

definition close_object :: "frame list \<Rightarrow> (frame list \<times> phase) option" where
  "close_object st = (case st of FObject ms None # st' \<Rightarrow> deliver (JObject ms) st' | _ \<Rightarrow> None)"

definition take_key :: "frame list \<Rightarrow> token \<Rightarrow> (frame list \<times> phase) option" where
  "take_key st t =
    (case t of
       TString k \<Rightarrow> (case st of FObject ms None # st' \<Rightarrow> Some (FObject ms (Some k) # st', PColon)
                     | _ \<Rightarrow> None)
     | _ \<Rightarrow> None)"

fun parse_step :: "frame list \<Rightarrow> phase \<Rightarrow> token \<Rightarrow> (frame list \<times> phase) option" where
  "parse_step st PValue t = open_value st t"
| "parse_step st PValueOrEnd t = (if t = TRBracket then close_array st else open_value st t)"
| "parse_step st PKeyOrEnd t = (if t = TRBrace then close_object st else take_key st t)"
| "parse_step st PKey t = take_key st t"
| "parse_step st PColon t = (if t = TColon then Some (st, PValue) else None)"
| "parse_step st PCommaOrEnd t =
    (if t = TComma then
       (case st of
          FArray acc # st' \<Rightarrow> Some (st, PValue)
        | FObject ms k # st' \<Rightarrow> Some (st, PKey)
        | [] \<Rightarrow> None)
     else if t = TRBracket then close_array st
     else if t = TRBrace then close_object st
     else None)"
| "parse_step st (PDone v) t = None"

fun parse_tokens :: "frame list \<Rightarrow> phase \<Rightarrow> token list \<Rightarrow> json option" where
  "parse_tokens st p [] = (case p of PDone v \<Rightarrow> Some v | _ \<Rightarrow> None)"
| "parse_tokens st p (t # ts) =
    (case parse_step st p t of
       None \<Rightarrow> None
     | Some (st', p') \<Rightarrow> parse_tokens st' p' ts)"

text \<open>
  \<^verbatim>\<open>JSON.parse\<close> throws a SyntaxError on a text outside the grammar; \<open>Inl\<close> carries its
  message. The wording of the message is the engine's own; one fixed text stands for it.
\<close>

definition SyntaxError_message :: jsstring where
  "SyntaxError_message = js ''Unexpected token in JSON''"

definition JSON_parse :: "jsstring \<Rightarrow> jsstring + json" where
  "JSON_parse text =
    (case lex LStart text of
       None \<Rightarrow> Inl SyntaxError_message
     | Some toks \<Rightarrow>
         (case parse_tokens [] PValue toks of
            None \<Rightarrow> Inl SyntaxError_message
          | Some v \<Rightarrow> Inr v))"


text \<open>
  A number value at run time: a rational, NaN or an infinity. \<^verbatim>\<open>StringToNumber\<close> is the
  conversion of ECMAScript from a string: white space is trimmed, the empty string is 0,
  a hexadecimal, octal or binary literal has no sign, a decimal literal may omit the
  digits on one side of the point, and anything else is NaN.
\<close>

datatype jsnum = Num rat | NaN | PosInf | NegInf

definition isHex :: "code_unit \<Rightarrow> bool" where
  "isHex c \<longleftrightarrow> hexval c \<noteq> None"

definition radix_value :: "nat \<Rightarrow> jsstring \<Rightarrow> nat" where
  "radix_value b ds = foldl (\<lambda>a d. b * a + (case hexval d of Some h \<Rightarrow> h | None \<Rightarrow> 0)) 0 ds"

definition StrDecimalLiteral :: "jsstring \<Rightarrow> jsnum" where
  "StrDecimalLiteral cs =
    (let neg = (cs \<noteq> [] \<and> hd cs = 0x2D);
         r0 = (if cs \<noteq> [] \<and> (hd cs = 0x2D \<or> hd cs = 0x2B) then tl cs else cs);
         ip = takeWhile isDigit r0;
         r1 = dropWhile isDigit r0;
         dot = (r1 \<noteq> [] \<and> hd r1 = 0x2E);
         fp = (if dot then takeWhile isDigit (tl r1) else []);
         r2 = (if dot then dropWhile isDigit (tl r1) else r1)
     in if r0 = js ''Infinity'' then (if neg then NegInf else PosInf)
        else if ip = [] \<and> fp = [] then NaN
        else (case exponent_part r2 of
                None \<Rightarrow> NaN
              | Some e \<Rightarrow>
                  Num (scale10 ((if neg then - 1 else 1) * int (digits_value (ip @ fp)))
                         (e - int (length fp)))))"

definition StringToNumber :: "jsstring \<Rightarrow> jsnum" where
  "StringToNumber s =
    (let t = trim s in
     if t = [] then Num 0
     else if 2 < length t \<and> hd t = 0x30 \<and> (t ! 1 = 0x78 \<or> t ! 1 = 0x58) then
       (if list_all isHex (drop 2 t) then Num (of_nat (radix_value 16 (drop 2 t))) else NaN)
     else if 2 < length t \<and> hd t = 0x30 \<and> (t ! 1 = 0x6F \<or> t ! 1 = 0x4F) then
       (if list_all (\<lambda>c. 0x30 \<le> c \<and> c \<le> 0x37) (drop 2 t)
        then Num (of_nat (radix_value 8 (drop 2 t))) else NaN)
     else if 2 < length t \<and> hd t = 0x30 \<and> (t ! 1 = 0x62 \<or> t ! 1 = 0x42) then
       (if list_all (\<lambda>c. c = 0x30 \<or> c = 0x31) (drop 2 t)
        then Num (of_nat (radix_value 2 (drop 2 t))) else NaN)
     else StrDecimalLiteral t)"

text \<open>
  \<^verbatim>\<open>ToNumber\<close> of a value that \<^verbatim>\<open>JSON.parse\<close> returned. An object converts through
  \<^verbatim>\<open>Object.prototype.toString\<close> to "[object Object]", which is NaN, unless it has a
  member named \<^verbatim>\<open>toString\<close> of its own: that member is not callable, and the
  conversion throws a TypeError. An array converts through \<^verbatim>\<open>join\<close>: the empty array
  gives the empty string, an array of one element gives the string of that element
  (empty for null, and for a number a literal that reads back as the same number), and
  a longer array gives a string with a comma, which is NaN.
\<close>

fun throwing :: "json \<Rightarrow> bool" where
  "throwing (JObject ms) = (map_of ms (js ''toString'') \<noteq> None)"
| "throwing (JArray xs) = list_ex throwing xs"
| "throwing v = False"

fun joined_number :: "json list \<Rightarrow> jsnum" where
  "joined_number [] = Num 0"
| "joined_number [x] =
    (case x of
       JNull \<Rightarrow> Num 0
     | JBool b \<Rightarrow> NaN
     | JNumber q \<Rightarrow> Num q
     | JString s \<Rightarrow> StringToNumber s
     | JArray ys \<Rightarrow> joined_number ys
     | JObject ms \<Rightarrow> NaN)"
| "joined_number (x # y # zs) = NaN"

definition TypeError_primitive :: jsstring where
  "TypeError_primitive = js ''Cannot convert object to primitive value''"

definition ToNumber :: "json \<Rightarrow> jsstring + jsnum" where
  "ToNumber v =
    (case v of
       JNull \<Rightarrow> Inr (Num 0)
     | JBool b \<Rightarrow> Inr (Num (if b then 1 else 0))
     | JNumber q \<Rightarrow> Inr (Num q)
     | JString s \<Rightarrow> Inr (StringToNumber s)
     | JArray xs \<Rightarrow> if throwing v then Inl TypeError_primitive else Inr (joined_number xs)
     | JObject ms \<Rightarrow> if throwing v then Inl TypeError_primitive else Inr NaN)"

text \<open>
  \<^verbatim>\<open>ToBoolean\<close> of the value of a property read, \<open>None\<close> being \<^verbatim>\<open>undefined\<close>;
  \<^verbatim>\<open>Math.min\<close> and \<^verbatim>\<open>Math.max\<close> of two numbers; and the read of a property that no
  prototype defines, which is what the seven names read below are.
\<close>

definition ToBoolean :: "json option \<Rightarrow> bool" where
  "ToBoolean v =
    (case v of
       None \<Rightarrow> False
     | Some JNull \<Rightarrow> False
     | Some (JBool b) \<Rightarrow> b
     | Some (JNumber q) \<Rightarrow> q \<noteq> 0
     | Some (JString s) \<Rightarrow> s \<noteq> []
     | Some (JArray xs) \<Rightarrow> True
     | Some (JObject ms) \<Rightarrow> True)"

definition Math_min :: "jsnum \<Rightarrow> jsnum \<Rightarrow> jsnum" where
  "Math_min a b =
    (case (a, b) of
       (NaN, _) \<Rightarrow> NaN
     | (_, NaN) \<Rightarrow> NaN
     | (NegInf, _) \<Rightarrow> NegInf
     | (_, NegInf) \<Rightarrow> NegInf
     | (PosInf, _) \<Rightarrow> b
     | (_, PosInf) \<Rightarrow> a
     | (Num x, Num y) \<Rightarrow> Num (min x y))"

definition Math_max :: "jsnum \<Rightarrow> jsnum \<Rightarrow> jsnum" where
  "Math_max a b =
    (case (a, b) of
       (NaN, _) \<Rightarrow> NaN
     | (_, NaN) \<Rightarrow> NaN
     | (PosInf, _) \<Rightarrow> PosInf
     | (_, PosInf) \<Rightarrow> PosInf
     | (NegInf, _) \<Rightarrow> b
     | (_, NegInf) \<Rightarrow> a
     | (Num x, Num y) \<Rightarrow> Num (max x y))"

definition property :: "json \<Rightarrow> jsstring \<Rightarrow> json option" where
  "property v k = (case v of JObject ms \<Rightarrow> map_of ms k | _ \<Rightarrow> None)"

section \<open>src/services/aiService.ts: parseAIResponse\<close>

text \<open>
  \<^verbatim>\<open>response.match(/\{[\s\S]*\}/)\<close>: the leftmost position from which the expression
  matches, and there the longest match, since the star is greedy. The expression
  matches from an opening brace that has a closing brace somewhere after it, up to the
  last closing brace.
\<close>

fun regex_match :: "jsstring \<Rightarrow> jsstring option" where
  "regex_match [] = None"
| "regex_match (c # cs) =
    (if c = 0x7B \<and> 0x7D \<in> set cs
     then Some (c # rev (dropWhile (\<lambda>x. x \<noteq> 0x7D) (rev cs)))
     else regex_match cs)"

text \<open>
  \<^verbatim>\<open>interface AnalysisResult\<close>. The fields hold what the code stores in them, which
  the declared types do not constrain at run time: the elements of an array are any
  values, and the summary is any truthy value.
\<close>

record AnalysisResult =
  overallMatch :: jsnum
  strengths :: "json list"
  weaknesses :: "json list"
  recommendations :: "json list"
  keyAlignments :: "json list"
  missingSkills :: "json list"
  summary :: json

text \<open>
  \<^verbatim>\<open>v || d\<close> and \<^verbatim>\<open>Array.isArray(v) ? v : []\<close>.
\<close>

definition or_default :: "json option \<Rightarrow> json \<Rightarrow> json" where
  "or_default v d = (case v of Some x \<Rightarrow> if ToBoolean v then x else d | None \<Rightarrow> d)"

definition array_or_empty :: "json option \<Rightarrow> json list" where
  "array_or_empty v = (case v of Some (JArray xs) \<Rightarrow> xs | _ \<Rightarrow> [])"

text \<open>
  The body of \<^verbatim>\<open>parseAIResponse\<close>. \<open>Inl\<close> carries the message of the
  \<^verbatim>\<open>Error\<close> that the \<^verbatim>\<open>catch\<close> block throws. Reading a property of \<^verbatim>\<open>null\<close>
  throws a TypeError, whose message is again the engine's own.
\<close>

definition TypeError_null :: jsstring where
  "TypeError_null = js ''Cannot read properties of null''"

definition jsonString :: "jsstring \<Rightarrow> jsstring" where
  "jsonString response = (case regex_match response of Some m \<Rightarrow> m | None \<Rightarrow> response)"

definition parseAIResponse :: "jsstring \<Rightarrow> jsstring + AnalysisResult" where
  "parseAIResponse response =
    (case JSON_parse (jsonString response) of
       Inl message \<Rightarrow> Inl (js ''Failed to parse AI response: '' @ message)
     | Inr parsed \<Rightarrow>
         if parsed = JNull then Inl (js ''Failed to parse AI response: '' @ TypeError_null)
         else
           (case ToNumber (or_default (property parsed (js ''overallMatch'')) (JNumber 0)) of
              Inl message \<Rightarrow> Inl (js ''Failed to parse AI response: '' @ message)
            | Inr n \<Rightarrow>
                Inr \<lparr>overallMatch = Math_max (Num 0) (Math_min (Num 100) n),
                     strengths = array_or_empty (property parsed (js ''strengths'')),
                     weaknesses = array_or_empty (property parsed (js ''weaknesses'')),
                     recommendations = array_or_empty (property parsed (js ''recommendations'')),
                     keyAlignments = array_or_empty (property parsed (js ''keyAlignments'')),
                     missingSkills = array_or_empty (property parsed (js ''missingSkills'')),
                     summary = or_default (property parsed (js ''summary''))
                                 (JString (js ''Analysis completed''))\<rparr>))"

text \<open>
  The result in which every field has its default.
\<close>

definition defaults :: AnalysisResult where
  "defaults = \<lparr>overallMatch = Num 0, strengths = [], weaknesses = [], recommendations = [],
     keyAlignments = [], missingSkills = [], summary = JString (js ''Analysis completed'')\<rparr>"

section \<open>src/routers/analysisRouter.ts and src/services/aiService.ts\<close>

text \<open>
  The five variables that both modules read from \<^verbatim>\<open>process.env\<close> when they are
  loaded; a variable that is not set is \<open>None\<close>.
\<close>

record Env =
  USE_WOLF_ENDPOINT :: "jsstring option"
  GEMINI_WOLF_AUTH_TOKEN :: "jsstring option"
  GEMINI_WOLF_ENDPOINT :: "jsstring option"
  GEMINI_ENDPOINT :: "jsstring option"
  GEMINI_API_KEY :: "jsstring option"

text \<open>
  What the code throws: a \<^verbatim>\<open>TRPCError\<close> with its code and message, or a plain
  \<^verbatim>\<open>Error\<close> with its message. \<open>falsy\<close> is \<^verbatim>\<open>!v\<close> for a string that may be
  undefined, \<open>or_string\<close> is \<^verbatim>\<open>v || d\<close>.
\<close>

datatype TRPC_code = BAD_REQUEST | INTERNAL_SERVER_ERROR

datatype thrown = TRPCError TRPC_code jsstring | Error jsstring

definition falsy :: "jsstring option \<Rightarrow> bool" where
  "falsy v \<longleftrightarrow> v = None \<or> v = Some []"

definition or_string :: "jsstring option \<Rightarrow> jsstring \<Rightarrow> jsstring" where
  "or_string v d = (case v of None \<Rightarrow> d | Some s \<Rightarrow> if s = [] then d else s)"

text \<open>
  \<^verbatim>\<open>validateAIConfiguration\<close>, which the mutation calls on every request.
\<close>

definition useWolf :: "Env \<Rightarrow> bool" where
  "useWolf env \<longleftrightarrow>
     USE_WOLF_ENDPOINT env = Some (js ''true'') \<or> USE_WOLF_ENDPOINT env = Some (js ''1'')"

definition validateAIConfiguration :: "Env \<Rightarrow> thrown + (bool \<times> jsstring option)" where
  "validateAIConfiguration env =
    (if useWolf env then
       (if falsy (GEMINI_WOLF_AUTH_TOKEN env) then
          Inl (TRPCError INTERNAL_SERVER_ERROR (js ''Wolf endpoint auth token not configured''))
        else Inr (True, GEMINI_WOLF_AUTH_TOKEN env))
     else
       (if falsy (GEMINI_API_KEY env) then
          Inl (TRPCError INTERNAL_SERVER_ERROR (js ''Google Gemini API key not configured''))
        else Inr (False, None)))"

text \<open>
  The fields and the constructor of \<^verbatim>\<open>class AIService\<close>. The constructor throws
  nothing: a credential that is missing becomes the empty string.
\<close>

record AIService =
  wolfEndpoint :: jsstring
  geminiEndpoint :: jsstring
  authToken :: jsstring
  apiKey :: jsstring
  useWolfEndpoint :: bool

definition new_AIService :: "Env \<Rightarrow> jsstring option \<Rightarrow> AIService" where
  "new_AIService env token =
    (let wolf = js ''https://intertest.woolf.engineering/invoke'' in
     if useWolf env then
       \<lparr>wolfEndpoint = wolf,
        geminiEndpoint = or_string (GEMINI_WOLF_ENDPOINT env) wolf,
        authToken = or_string token (or_string (GEMINI_WOLF_AUTH_TOKEN env) []),
        apiKey = [],
        useWolfEndpoint = True\<rparr>
     else
       \<lparr>wolfEndpoint = wolf,
        geminiEndpoint = or_string (GEMINI_ENDPOINT env)
          (js ''https://generativelanguage.googleapis.com/v1beta/models/gemini-2.0-flash:generateContent''),
        authToken = [],
        apiKey = or_string (GEMINI_API_KEY env) [],
        useWolfEndpoint = False\<rparr>)"

text \<open>
  \<^verbatim>\<open>buildAnalysisPrompt\<close>: the template, line by line, with the two texts in it.
\<close>

definition unlines :: "string list \<Rightarrow> jsstring" where
  "unlines ls = concat (map (\<lambda>l. js l @ [0x0A]) ls)"

definition buildAnalysisPrompt :: "jsstring \<Rightarrow> jsstring \<Rightarrow> jsstring" where
  "buildAnalysisPrompt cvText jobDescriptionText =
    unlines ['''',
      ''Analyze the following CV against the job description and provide a comprehensive evaluation.'',
      '''',
      ''JOB DESCRIPTION:'']
    @ jobDescriptionText @ [0x0A]
    @ unlines ['''', ''CANDIDATE CV:'']
    @ cvText @ [0x0A]
    @ unlines ['''',
      ''Please provide your analysis in the following JSON format (ensure valid JSON):'',
      '''',
      ''{'',
      ''  \"overallMatch\": <number between 0-100>,'']
    @ js ''  \"strengths\": [<array of candidate'' @ [0x27]
    @ unlines [''s key strengths relevant to the role>],'',
      ''  \"weaknesses\": [<array of areas where candidate may be lacking>],'',
      ''  \"recommendations\": [<array of suggestions for improving the match>],'',
      ''  \"keyAlignments\": [<array of specific ways the candidate aligns with job requirements>],'',
      ''  \"missingSkills\": [<array of required skills the candidate appears to lack>],'',
      ''  \"summary\": \"<brief overall assessment paragraph>\"'',
      ''}'',
      '''',
      ''Focus on:'',
      ''- Technical skills alignment'',
      ''- Experience relevance'',
      ''- Cultural fit indicators'',
      ''- Education/certification match'',
      ''- Soft skills assessment'',
      ''- Growth potential'',
      '''',
      ''Provide specific, actionable insights rather than generic statements.'']"

text \<open>
  The request that \<^verbatim>\<open>axios.post\<close> sends and what comes back: a response whose data
  holds candidates, an error of axios (the status and the remote message when there
  is a response, and the error's own message), or another error. A level that is
  missing under \<^verbatim>\<open>candidates?.[0]?.content?.parts?.[0]?.text\<close> is an empty list here.
\<close>

record GeminiRequest =
  contents :: "jsstring list list"
  temperature :: rat
  topK :: nat
  topP :: rat
  maxOutputTokens :: nat

record HttpRequest =
  url :: jsstring
  data :: GeminiRequest
  headers :: "(jsstring \<times> jsstring) list"
  timeout :: nat

record Candidate =
  parts :: "jsstring list"
  finishReason :: jsstring

datatype HttpOutcome =
    Response "Candidate list"
  | AxiosError "nat option" "jsstring option" jsstring
  | OtherError jsstring

text \<open>
  The collaborators outside the repository: the PDF parser, which returns a text and a
  page count or throws (an \<^verbatim>\<open>Error\<close> with a message, or something else), and the
  remote endpoint behind \<^verbatim>\<open>axios.post\<close>. Both extractions run under
  \<^verbatim>\<open>Promise.all\<close>; when both fail, which failure is reported depends on which
  settles first. Every call of a collaborator is recorded, in order.
\<close>

datatype PdfOutcome = Parsed jsstring nat | Rejected "jsstring option"

datatype Call = PdfParse "byte list" | HttpPost HttpRequest

record Collaborators =
  pdf :: "byte list \<Rightarrow> PdfOutcome"
  post :: "HttpRequest \<Rightarrow> HttpOutcome"
  cv_settles_first :: bool

text \<open>
  The clock readings of one request, in the order the code takes them: the three of
  \<^verbatim>\<open>canMakeRequest\<close>, the one of \<^verbatim>\<open>new Date()\<close> for the timestamp (kept as the
  instant, not rendered as an ISO-8601 string), and the two that
  \<^verbatim>\<open>getRemainingRequests\<close> uses.
\<close>

record Clock =
  check_now :: int
  check_hour :: int
  check_minute :: int
  stamp :: int
  remaining_minute :: int
  remaining_hour :: int

text \<open>
  \<^verbatim>\<open>PDFService.extractText\<close>. The field \<^verbatim>\<open>metadata\<close> of its result, which nothing
  reads, is left out.
\<close>

record ProcessedPDFContent =
  "text" :: jsstring
  pageCount :: nat

definition extractText :: "(byte list \<Rightarrow> PdfOutcome) \<Rightarrow> byte list \<Rightarrow> thrown + ProcessedPDFContent" where
  "extractText parse buffer =
    (case parse buffer of
       Parsed t n \<Rightarrow> Inr \<lparr>text = t, pageCount = n\<rparr>
     | Rejected m \<Rightarrow>
         Inl (Error (js ''Failed to extract text from PDF: ''
                     @ (case m of Some message \<Rightarrow> message | None \<Rightarrow> js ''Unknown error''))))"

text \<open>
  \<^verbatim>\<open>AIService.analyzeCandidate\<close>: the rate check with the default identifier, the
  request for the selected endpoint, and the classification of what comes back. It
  returns what it throws or its result, the rate limiter's map, and the requests sent.
\<close>

definition first_text :: "Candidate list \<Rightarrow> jsstring option" where
  "first_text candidates =
    (case candidates of
       [] \<Rightarrow> None
     | c # cs \<Rightarrow> (case parts c of [] \<Rightarrow> None | t # ts \<Rightarrow> Some t))"

definition request_for :: "AIService \<Rightarrow> jsstring \<Rightarrow> HttpRequest" where
  "request_for service prompt =
    (let request = \<lparr>contents = [[prompt]], temperature = 3 / 10, topK = 40, topP = 8 / 10,
                     maxOutputTokens = 2048\<rparr>
     in if useWolfEndpoint service then
          \<lparr>url = geminiEndpoint service, data = request,
           headers = [(js ''Authorization'', js ''Bearer '' @ authToken service),
                      (js ''Content-Type'', js ''application/json'')],
           timeout = 30000\<rparr>
        else
          \<lparr>url = geminiEndpoint service @ js ''?key='' @ apiKey service, data = request,
           headers = [(js ''Content-Type'', js ''application/json'')],
           timeout = 30000\<rparr>)"

definition analyzeCandidate ::
  "AIService \<Rightarrow> (HttpRequest \<Rightarrow> HttpOutcome) \<Rightarrow> Clock \<Rightarrow> Windows \<Rightarrow> jsstring \<Rightarrow> jsstring
   \<Rightarrow> (thrown + AnalysisResult) \<times> Windows \<times> Call list" where
  "analyzeCandidate service send clock windows cvText jobDescriptionText =
    (let (rateLimitCheck, windows') =
           canMakeRequest windows (js ''default'') (check_now clock) (check_hour clock)
             (check_minute clock)
     in if \<not> allowed rateLimitCheck then
          (Inl (Error (case error rateLimitCheck of Some m \<Rightarrow> m | None \<Rightarrow> [])), windows', [])
        else
          (let prompt = buildAnalysisPrompt cvText jobDescriptionText;
               request = request_for service prompt
           in (case send request of
                 Response candidates \<Rightarrow>
                   (case first_text candidates of
                      None \<Rightarrow> Inl (Error (js ''Invalid response from AI service''))
                    | Some aiResponse \<Rightarrow>
                        if aiResponse = [] then Inl (Error (js ''Invalid response from AI service''))
                        else (case parseAIResponse aiResponse of
                                Inl message \<Rightarrow> Inl (Error message)
                              | Inr result \<Rightarrow> Inr result))
               | AxiosError status remote message \<Rightarrow>
                   if status = Some 429 then Inl (Error (js ''Rate limit exceeded on AI service''))
                   else Inl (Error (js ''AI service error: '' @ or_string remote message))
               | OtherError message \<Rightarrow> Inl (Error message),
               windows', [HttpPost request])))"

text \<open>
  The mutation \<^verbatim>\<open>analyzeCandidateMatch\<close>. Its result is the analysis extended with
  the metadata; its \<^verbatim>\<open>catch\<close> block rethrows a \<^verbatim>\<open>TRPCError\<close> and wraps any other
  error as INTERNAL_SERVER_ERROR with the same message.
\<close>

record Metadata =
  jobDescriptionPages :: nat
  cvPages :: nat
  analysisTimestamp :: int
  remainingRequests :: Remaining
  endpointUsed :: jsstring

record AnalysisOutput = AnalysisResult +
  metadata :: Metadata

definition rethrow :: "thrown \<Rightarrow> thrown" where
  "rethrow e = (case e of TRPCError c m \<Rightarrow> TRPCError c m
                | Error m \<Rightarrow> TRPCError INTERNAL_SERVER_ERROR m)"

definition reason_text :: "ValidationResult \<Rightarrow> jsstring" where
  "reason_text v = (case error_pdf v of Some m \<Rightarrow> m | None \<Rightarrow> js ''undefined'')"

definition analyzeCandidateMatch ::
  "Env \<Rightarrow> Collaborators \<Rightarrow> Clock \<Rightarrow> Windows \<Rightarrow> byte list \<Rightarrow> byte list
   \<Rightarrow> (thrown + AnalysisOutput) \<times> Windows \<times> Call list" where
  "analyzeCandidateMatch env world clock windows jobDescription cv =
    (let jobDescValidation = validatePDF jobDescription in
     if \<not> isValid jobDescValidation then
       (Inl (TRPCError BAD_REQUEST (js ''Job description PDF error: '' @ reason_text jobDescValidation)),
        windows, [])
     else
     (let cvValidation = validatePDF cv in
      if \<not> isValid cvValidation then
        (Inl (TRPCError BAD_REQUEST (js ''CV PDF error: '' @ reason_text cvValidation)), windows, [])
      else
      (let extractions = [PdfParse jobDescription, PdfParse cv] in
       case (extractText (pdf world) jobDescription, extractText (pdf world) cv) of
         (Inl e, Inl e') \<Rightarrow>
           (Inl (rethrow (if cv_settles_first world then e' else e)), windows, extractions)
       | (Inl e, Inr c) \<Rightarrow> (Inl (rethrow e), windows, extractions)
       | (Inr j, Inl e') \<Rightarrow> (Inl (rethrow e'), windows, extractions)
       | (Inr jobDescContent, Inr cvContent) \<Rightarrow>
           (let jobDescText = cleanText (text jobDescContent);
                cvText = cleanText (text cvContent)
            in if trim jobDescText = [] then
                 (Inl (TRPCError BAD_REQUEST (js ''Job description PDF contains no readable text'')),
                  windows, extractions)
               else if trim cvText = [] then
                 (Inl (TRPCError BAD_REQUEST (js ''CV PDF contains no readable text'')),
                  windows, extractions)
               else
                 (case validateAIConfiguration env of
                    Inl e \<Rightarrow> (Inl (rethrow e), windows, extractions)
                  | Inr (config_useWolf, config_token) \<Rightarrow>
                      (let aiService = new_AIService env
                             (if falsy config_token then None else config_token);
                           (outcome, windows', sent) =
                             analyzeCandidate aiService (post world) clock windows cvText jobDescText
                       in case outcome of
                            Inl e \<Rightarrow> (Inl (rethrow e), windows', extractions @ sent)
                          | Inr analysis \<Rightarrow>
                              (let (remaining, windows'') =
                                     getRemainingRequests windows' (js ''default'')
                                       (remaining_minute clock) (remaining_hour clock)
                               in (Inr (AnalysisResult.extend analysis
                                     (AnalysisOutput.fields
                                       \<lparr>jobDescriptionPages = pageCount jobDescContent,
                                        cvPages = pageCount cvContent,
                                        analysisTimestamp = stamp clock,
                                        remainingRequests = remaining,
                                        endpointUsed = (if config_useWolf then js ''Wolf''
                                                        else js ''Google Gemini'')\<rparr>)),
                                   windows'', extractions @ sent))))))))"

text \<open>
  The rate limiter is one object for the whole process, and every request checks it
  under the identifier \<^verbatim>\<open>default\<close>. A request awaits twice: the two extractions,
  and the reply of the gateway. While it waits, other requests run, and what they do to
  the rate limiter is to check it. \<open>Others\<close> holds the clock readings of the checks
  that other requests make during each of the two waits, in order; the two definitions
  below are \<^verbatim>\<open>analyzeCandidate\<close> and \<^verbatim>\<open>analyzeCandidateMatch\<close> among such
  requests, and they return the results of those checks as well. The definitions above
  are the case in which no other request runs.
\<close>

record Others =
  during_extraction :: "(int \<times> int \<times> int) list"
  during_gateway :: "(int \<times> int \<times> int) list"

definition analyzeCandidate_among ::
  "AIService \<Rightarrow> (HttpRequest \<Rightarrow> HttpOutcome) \<Rightarrow> Clock \<Rightarrow> (int \<times> int \<times> int) list \<Rightarrow> Windows
   \<Rightarrow> jsstring \<Rightarrow> jsstring
   \<Rightarrow> (thrown + AnalysisResult) \<times> Windows \<times> Call list \<times> CheckResult list" where
  "analyzeCandidate_among service send clock meanwhile windows cvText jobDescriptionText =
    (let (rateLimitCheck, windows') =
           canMakeRequest windows (js ''default'') (check_now clock) (check_hour clock)
             (check_minute clock)
     in if \<not> allowed rateLimitCheck then
          (Inl (Error (case error rateLimitCheck of Some m \<Rightarrow> m | None \<Rightarrow> [])), windows', [], [])
        else
          (let prompt = buildAnalysisPrompt cvText jobDescriptionText;
               request = request_for service prompt;
               (others, windows'') = checks windows' (js ''default'') meanwhile
           in (case send request of
                 Response candidates \<Rightarrow>
                   (case first_text candidates of
                      None \<Rightarrow> Inl (Error (js ''Invalid response from AI service''))
                    | Some aiResponse \<Rightarrow>
                        if aiResponse = [] then Inl (Error (js ''Invalid response from AI service''))
                        else (case parseAIResponse aiResponse of
                                Inl message \<Rightarrow> Inl (Error message)
                              | Inr result \<Rightarrow> Inr result))
               | AxiosError status remote message \<Rightarrow>
                   if status = Some 429 then Inl (Error (js ''Rate limit exceeded on AI service''))
                   else Inl (Error (js ''AI service error: '' @ or_string remote message))
               | OtherError message \<Rightarrow> Inl (Error message),
               windows'', [HttpPost request], others)))"

definition analyzeCandidateMatch_among ::
  "Env \<Rightarrow> Collaborators \<Rightarrow> Clock \<Rightarrow> Others \<Rightarrow> Windows \<Rightarrow> byte list \<Rightarrow> byte list
   \<Rightarrow> (thrown + AnalysisOutput) \<times> Windows \<times> Call list \<times> CheckResult list" where
  "analyzeCandidateMatch_among env world clock others windows jobDescription cv =
    (let jobDescValidation = validatePDF jobDescription in
     if \<not> isValid jobDescValidation then
       (Inl (TRPCError BAD_REQUEST (js ''Job description PDF error: '' @ reason_text jobDescValidation)),
        windows, [], [])
     else
     (let cvValidation = validatePDF cv in
      if \<not> isValid cvValidation then
        (Inl (TRPCError BAD_REQUEST (js ''CV PDF error: '' @ reason_text cvValidation)),
         windows, [], [])
      else
      (let extractions = [PdfParse jobDescription, PdfParse cv];
           (early, windows1) = checks windows (js ''default'') (during_extraction others)
       in
       case (extractText (pdf world) jobDescription, extractText (pdf world) cv) of
         (Inl e, Inl e') \<Rightarrow>
           (Inl (rethrow (if cv_settles_first world then e' else e)), windows1, extractions, early)
       | (Inl e, Inr c) \<Rightarrow> (Inl (rethrow e), windows1, extractions, early)
       | (Inr j, Inl e') \<Rightarrow> (Inl (rethrow e'), windows1, extractions, early)
       | (Inr jobDescContent, Inr cvContent) \<Rightarrow>
           (let jobDescText = cleanText (text jobDescContent);
                cvText = cleanText (text cvContent)
            in if trim jobDescText = [] then
                 (Inl (TRPCError BAD_REQUEST (js ''Job description PDF contains no readable text'')),
                  windows1, extractions, early)
               else if trim cvText = [] then
                 (Inl (TRPCError BAD_REQUEST (js ''CV PDF contains no readable text'')),
                  windows1, extractions, early)
               else
                 (case validateAIConfiguration env of
                    Inl e \<Rightarrow> (Inl (rethrow e), windows1, extractions, early)
                  | Inr (config_useWolf, config_token) \<Rightarrow>
                      (let aiService = new_AIService env
                             (if falsy config_token then None else config_token);
                           (outcome, windows', sent, late) =
                             analyzeCandidate_among aiService (post world) clock
                               (during_gateway others) windows1 cvText jobDescText
                       in case outcome of
                            Inl e \<Rightarrow> (Inl (rethrow e), windows', extractions @ sent, early @ late)
                          | Inr analysis \<Rightarrow>
                              (let (remaining, windows'') =
                                     getRemainingRequests windows' (js ''default'')
                                       (remaining_minute clock) (remaining_hour clock)
                               in (Inr (AnalysisResult.extend analysis
                                     (AnalysisOutput.fields
                                       \<lparr>jobDescriptionPages = pageCount jobDescContent,
                                        cvPages = pageCount cvContent,
                                        analysisTimestamp = stamp clock,
                                        remainingRequests = remaining,
                                        endpointUsed = (if config_useWolf then js ''Wolf''
                                                        else js ''Google Gemini'')\<rparr>)),
                                   windows'', extractions @ sent, early @ late))))))))"

section \<open>Inputs of the examples\<close>

definition ticks :: "(int \<times> int \<times> int) list" where
  "ticks = map (\<lambda>k. (1000 * int k, 1000 * int k + 1, 1000 * int k + 2)) [0..<21]"

definition full :: Windows where
  "full = [js ''x'' \<mapsto> \<lparr>requests = replicate 20 0\<rparr>]"

definition no_credentials :: Env where
  "no_credentials = \<lparr>USE_WOLF_ENDPOINT = None, GEMINI_WOLF_AUTH_TOKEN = None,
     GEMINI_WOLF_ENDPOINT = None, GEMINI_ENDPOINT = None, GEMINI_API_KEY = None\<rparr>"

definition wolf_without_token :: Env where
  "wolf_without_token = \<lparr>USE_WOLF_ENDPOINT = Some (js ''true''), GEMINI_WOLF_AUTH_TOKEN = None,
     GEMINI_WOLF_ENDPOINT = None, GEMINI_ENDPOINT = None, GEMINI_API_KEY = Some (js ''key'')\<rparr>"

definition gemini_with_key :: Env where
  "gemini_with_key = \<lparr>USE_WOLF_ENDPOINT = None, GEMINI_WOLF_AUTH_TOKEN = None,
     GEMINI_WOLF_ENDPOINT = None, GEMINI_ENDPOINT = None, GEMINI_API_KEY = Some (js ''key'')\<rparr>"

definition mock_world :: Collaborators where
  "mock_world = \<lparr>pdf = (\<lambda>buffer. Parsed (js ''Senior engineer'') 2),
     post = (\<lambda>request. Response [\<lparr>parts = [js ''{\"overallMatch\": 70}''], finishReason = js ''STOP''\<rparr>]),
     cv_settles_first = False\<rparr>"

definition failing_world :: Collaborators where
  "failing_world = \<lparr>pdf = (\<lambda>buffer. Rejected None),
     post = (\<lambda>request. OtherError []),
     cv_settles_first = True\<rparr>"

definition frozen :: "int \<Rightarrow> Clock" where
  "frozen t = \<lparr>check_now = t, check_hour = t, check_minute = t, stamp = t,
     remaining_minute = t, remaining_hour = t\<rparr>"

definition slow_call :: Clock where
  "slow_call = \<lparr>check_now = 59500, check_hour = 59500, check_minute = 59500, stamp = 61500,
     remaining_minute = 61500, remaining_hour = 61500\<rparr>"

definition one_request :: Windows where
  "one_request = [js ''default'' \<mapsto> \<lparr>requests = [0]\<rparr>]"

definition nobody :: Others where
  "nobody = \<lparr>during_extraction = [], during_gateway = []\<rparr>"

definition one_other :: Others where
  "one_other = \<lparr>during_extraction = [], during_gateway = [(2000, 2000, 2000)]\<rparr>"

definition nearly_full :: Windows where
  "nearly_full = [js ''default'' \<mapsto> \<lparr>requests = replicate 19 0\<rparr>]"

definition ticking :: Clock where
  "ticking = \<lparr>check_now = 1500, check_hour = 1500, check_minute = 1500, stamp = 3500,
     remaining_minute = 3500, remaining_hour = 3500\<rparr>"

definition last_output :: AnalysisOutput where
  "last_output =
    \<lparr>overallMatch = Num 70, strengths = [], weaknesses = [], recommendations = [],
     keyAlignments = [], missingSkills = [], summary = JString (js ''Analysis completed''),
     metadata = \<lparr>jobDescriptionPages = 2, cvPages = 2, analysisTimestamp = 3500,
        remainingRequests = \<lparr>minute = 0, hour = 280\<rparr>,
        endpointUsed = js ''Google Gemini''\<rparr>\<rparr>"

section \<open>Properties of the rate limiter\<close>

lemma decimal_20: "decimal 20 = js ''20''"
  by (simp add: decimal.simps js_def)

lemma decimal_300: "decimal 300 = js ''300''"
  by (simp add: decimal.simps js_def)

lemma js_append: "js (a @ b) = js a @ js b"
  by (simp add: js_def)

text \<open>
  The check written out over the recorded timestamps: what is pruned, what is counted,
  which branch is taken and what the map holds afterwards.
\<close>

lemma canMakeRequest_eq:
  "canMakeRequest windows identifier now nowH nowM =
    (let pruned = filter (\<lambda>t. nowH - t < 3600000) (recorded windows identifier);
         minuteCount = length (filter (\<lambda>t. nowM - t < 60000) pruned)
     in if 20 \<le> minuteCount then
          (\<lparr>allowed = False, error = Some (js ''Rate limit exceeded: 20 requests per minute'')\<rparr>,
           windows(identifier \<mapsto> \<lparr>requests = pruned\<rparr>))
        else if 300 \<le> length pruned then
          (\<lparr>allowed = False, error = Some (js ''Rate limit exceeded: 300 requests per hour'')\<rparr>,
           windows(identifier \<mapsto> \<lparr>requests = pruned\<rparr>))
        else
          (\<lparr>allowed = True, error = None\<rparr>,
           windows(identifier \<mapsto> \<lparr>requests = pruned @ [now]\<rparr>)))"
proof (cases "windows identifier")
  case None
  then show ?thesis
    by (simp add: canMakeRequest_def recorded_def cleanOldRequests_def Let_def minuteLimit_def
       hourLimit_def minuteWindow_def hourWindow_def decimal_20 decimal_300 js_append [symmetric])
next
  case (Some w)
  obtain xs where w: "w = \<lparr>requests = xs\<rparr>" by (cases w) simp
  show ?thesis
    by (simp add: Some w canMakeRequest_def recorded_def cleanOldRequests_def Let_def minuteLimit_def
       hourLimit_def minuteWindow_def hourWindow_def decimal_20 decimal_300 js_append [symmetric])
qed

lemma recorded_upd: "recorded (ws(i \<mapsto> \<lparr>requests = xs\<rparr>)) i = xs"
  by (simp add: recorded_def)

lemma checks_within:
  "list_all (inside t 60000) clock \<Longrightarrow> list_all (\<lambda>x. t \<le> x \<and> x < t + 60000) (recorded ws i) \<Longrightarrow>
   length (recorded ws i) + length clock \<le> 20 \<Longrightarrow>
   list_all allowed (fst (checks ws i clock)) \<and>
   length (recorded (snd (checks ws i clock)) i) = length (recorded ws i) + length clock \<and>
   list_all (\<lambda>x. t \<le> x \<and> x < t + 60000) (recorded (snd (checks ws i clock)) i)"
proof (induction clock arbitrary: ws)
  case Nil
  then show ?case by simp
next
  case (Cons c clock)
  obtain now nowH nowM where c: "c = (now, nowH, nowM)" by (cases c) auto
  from Cons.prems(1) have w: "t \<le> now" "now < t + 60000" "t \<le> nowH" "nowH < t + 60000"
    "t \<le> nowM" "nowM < t + 60000" and rest: "list_all (inside t 60000) clock"
    by (simp_all add: c) (simp_all add: inside_def)
  let ?old = "recorded ws i"
  have keepH: "filter (\<lambda>x. nowH - x < 3600000) ?old = ?old"
    using Cons.prems(2) w by (auto simp: list_all_iff intro!: filter_True)
  have keepM: "filter (\<lambda>x. nowM - x < 60000) ?old = ?old"
    using Cons.prems(2) w by (auto simp: list_all_iff intro!: filter_True)
  have len: "length ?old < 20" using Cons.prems(3) by simp
  have step: "canMakeRequest ws i now nowH nowM =
    (\<lparr>allowed = True, error = None\<rparr>, ws(i \<mapsto> \<lparr>requests = ?old @ [now]\<rparr>))"
    using len by (simp add: canMakeRequest_eq keepH keepM Let_def)
  let ?ws' = "ws(i \<mapsto> \<lparr>requests = ?old @ [now]\<rparr>)"
  have r': "recorded ?ws' i = ?old @ [now]" by (rule recorded_upd)
  have IH: "list_all allowed (fst (checks ?ws' i clock)) \<and>
   length (recorded (snd (checks ?ws' i clock)) i) = length (recorded ?ws' i) + length clock \<and>
   list_all (\<lambda>x. t \<le> x \<and> x < t + 60000) (recorded (snd (checks ?ws' i clock)) i)"
  proof (rule Cons.IH [of ?ws'])
    show "list_all (inside t 60000) clock" by (rule rest)
    show "list_all (\<lambda>x. t \<le> x \<and> x < t + 60000) (recorded ?ws' i)"
      using Cons.prems(2) w by (simp add: r')
    show "length (recorded ?ws' i) + length clock \<le> 20"
      using Cons.prems(3) by (simp add: r')
  qed
  show ?case using IH by (simp add: c step r' case_prod_beta)
qed

lemma checks_append:
  "checks ws i (xs @ ys) =
    (fst (checks ws i xs) @ fst (checks (snd (checks ws i xs)) i ys),
     snd (checks (snd (checks ws i xs)) i ys))"
  by (induction xs arbitrary: ws) (auto simp: case_prod_beta)

lemma length_checks: "length (fst (checks ws i clock)) = length clock"
  by (induction clock arbitrary: ws) (auto simp: case_prod_beta)

lemma sublist_minute_message:
  "sublist (js ''20 requests per minute'') (js ''Rate limit exceeded: 20 requests per minute'')"
proof -
  have "js ''Rate limit exceeded: 20 requests per minute'' =
    js ''Rate limit exceeded: '' @ js ''20 requests per minute'' @ []"
    by (simp add: js_def)
  then show ?thesis unfolding sublist_def by blast
qed

text \<open>
  C1. For every identifier and every three clock readings, the check prunes the
  timestamps that are one hour old or older, counts those of the pruned list that are
  less than 60 seconds old, rejects with the minute-limit message when that count is at
  least 20, otherwise rejects with the hour-limit message when the pruned list has at
  least 300 entries, and otherwise appends the current instant and allows. In
  particular, when 21 consecutive checks of an identifier with no recorded timestamp
  take all their clock readings inside one interval of 60 seconds, the 20th is allowed
  and the 21st is rejected with a message that contains "20 requests per minute".
\<close>

theorem canMakeRequest_sliding_window:
  "canMakeRequest windows identifier now nowH nowM =
    (let pruned = filter (\<lambda>t. nowH - t < 3600000) (recorded windows identifier);
         minuteCount = length (filter (\<lambda>t. nowM - t < 60000) pruned)
     in if 20 \<le> minuteCount then
          (\<lparr>allowed = False, error = Some (js ''Rate limit exceeded: 20 requests per minute'')\<rparr>,
           windows(identifier \<mapsto> \<lparr>requests = pruned\<rparr>))
        else if 300 \<le> length pruned then
          (\<lparr>allowed = False, error = Some (js ''Rate limit exceeded: 300 requests per hour'')\<rparr>,
           windows(identifier \<mapsto> \<lparr>requests = pruned\<rparr>))
        else
          (\<lparr>allowed = True, error = None\<rparr>,
           windows(identifier \<mapsto> \<lparr>requests = pruned @ [now]\<rparr>)))
   \<and> (recorded windows identifier = [] \<and> length clock = 21 \<and> list_all (inside t 60000) clock
        \<longrightarrow> allowed (fst (checks windows identifier clock) ! 19)
          \<and> \<not> allowed (fst (checks windows identifier clock) ! 20)
          \<and> (\<exists>m. error (fst (checks windows identifier clock) ! 20) = Some m
                 \<and> sublist (js ''20 requests per minute'') m))"
proof (intro conjI impI)
  show "canMakeRequest windows identifier now nowH nowM =
    (let pruned = filter (\<lambda>t. nowH - t < 3600000) (recorded windows identifier);
         minuteCount = length (filter (\<lambda>t. nowM - t < 60000) pruned)
     in if 20 \<le> minuteCount then
          (\<lparr>allowed = False, error = Some (js ''Rate limit exceeded: 20 requests per minute'')\<rparr>,
           windows(identifier \<mapsto> \<lparr>requests = pruned\<rparr>))
        else if 300 \<le> length pruned then
          (\<lparr>allowed = False, error = Some (js ''Rate limit exceeded: 300 requests per hour'')\<rparr>,
           windows(identifier \<mapsto> \<lparr>requests = pruned\<rparr>))
        else
          (\<lparr>allowed = True, error = None\<rparr>,
           windows(identifier \<mapsto> \<lparr>requests = pruned @ [now]\<rparr>)))"
    by (rule canMakeRequest_eq)
next
  assume A: "recorded windows identifier = [] \<and> length clock = 21 \<and> list_all (inside t 60000) clock"
  define first where "first = take 20 clock"
  define c where "c = clock ! 20"
  have clock: "clock = first @ [c]"
    using A by (simp add: first_def c_def take_Suc_conv_app_nth [symmetric])
  have lf: "length first = 20" using A by (simp add: first_def)
  have wf: "list_all (inside t 60000) first" and wc: "inside t 60000 c"
    using A by (simp_all add: clock)
  define rs where "rs = fst (checks windows identifier first)"
  define ws where "ws = snd (checks windows identifier first)"
  have run: "list_all allowed rs \<and> length (recorded ws identifier) = 20 \<and>
    list_all (\<lambda>x. t \<le> x \<and> x < t + 60000) (recorded ws identifier)"
    using checks_within [of t first windows "identifier"] A wf lf by (simp add: rs_def ws_def)
  have lrs: "length rs = 20"
    by (simp add: rs_def length_checks lf)
  obtain n nH nM where c3: "c = (n, nH, nM)" by (cases c) auto
  have w: "t \<le> nH" "nH < t + 60000" "t \<le> nM" "nM < t + 60000"
    using wc by (simp_all add: c3 inside_def)
  let ?old = "recorded ws identifier"
  have keepH: "filter (\<lambda>x. nH - x < 3600000) ?old = ?old"
    using run w by (auto simp: list_all_iff intro!: filter_True)
  have keepM: "filter (\<lambda>x. nM - x < 60000) ?old = ?old"
    using run w by (auto simp: list_all_iff intro!: filter_True)
  have last: "fst (canMakeRequest ws identifier n nH nM) =
    \<lparr>allowed = False, error = Some (js ''Rate limit exceeded: 20 requests per minute'')\<rparr>"
    using run by (simp add: canMakeRequest_eq keepH keepM Let_def)
  have all: "fst (checks windows identifier clock) = rs @ [fst (canMakeRequest ws identifier n nH nM)]"
    by (simp add: clock checks_append rs_def ws_def c3 case_prod_beta)
  have n19: "fst (checks windows identifier clock) ! 19 = rs ! 19"
    by (simp add: all nth_append lrs)
  have n20: "fst (checks windows identifier clock) ! 20 =
    \<lparr>allowed = False, error = Some (js ''Rate limit exceeded: 20 requests per minute'')\<rparr>"
    by (simp add: all nth_append lrs last)
  show "allowed (fst (checks windows identifier clock) ! 19)"
    using run lrs by (simp add: n19 list_all_length)
  show "\<not> allowed (fst (checks windows identifier clock) ! 20)"
    by (simp add: n20)
  show "\<exists>m. error (fst (checks windows identifier clock) ! 20) = Some m
                 \<and> sublist (js ''20 requests per minute'') m"
    by (simp add: n20 sublist_minute_message)
qed


text \<open>
  The run of the theorem at 21 checks of a fresh identifier, one per second.
\<close>

theorem canMakeRequest_sliding_window_witness:
  "allowed (fst (checks Map.empty (js ''x'') ticks) ! 19)
   \<and> \<not> allowed (fst (checks Map.empty (js ''x'') ticks) ! 20)
   \<and> (\<exists>m. error (fst (checks Map.empty (js ''x'') ticks) ! 20) = Some m
          \<and> sublist (js ''20 requests per minute'') m)"
proof -
  have h1: "recorded Map.empty (js ''x'') = []" by (simp add: recorded_def)
  have h2: "length ticks = 21" by (simp add: ticks_def)
  have h3: "list_all (inside 0 60000) ticks"
    by (auto simp: ticks_def list_all_iff inside_def)
  show ?thesis
    using canMakeRequest_sliding_window [of Map.empty "js ''x''" 0 0 0 ticks 0] h1 h2 h3
    by blast
qed


lemma getRemainingRequests_eq:
  "getRemainingRequests windows identifier nowM nowH =
    (\<lparr>minute = max 0 (20 - int (length (filter (\<lambda>t. nowM - t < 60000) (recorded windows identifier)))),
      hour = max 0 (300 - int (length (filter (\<lambda>t. nowH - t < 3600000) (recorded windows identifier))))\<rparr>,
     windows)"
  by (cases "windows identifier")
     (simp_all add: getRemainingRequests_def recorded_def cleanOldRequests_def Let_def
        minuteLimit_def hourLimit_def minuteWindow_def hourWindow_def)

text \<open>
  C8. For every identifier, \<^verbatim>\<open>getRemainingRequests\<close> reports the limit minus the number
  of recorded timestamps inside the window, for the minute and the hour window, never
  below 0, and returns the map as it was. An identifier never seen reports 20 and 300;
  after one allowed check of such an identifier, and while the recorded instant is
  inside both windows, it reports 19 and 299.
\<close>

theorem getRemainingRequests_reports:
  "getRemainingRequests windows identifier nowM nowH =
    (\<lparr>minute = max 0 (20 - int (length (filter (\<lambda>t. nowM - t < 60000) (recorded windows identifier)))),
      hour = max 0 (300 - int (length (filter (\<lambda>t. nowH - t < 3600000) (recorded windows identifier))))\<rparr>,
     windows)
   \<and> 0 \<le> minute (fst (getRemainingRequests windows identifier nowM nowH))
   \<and> 0 \<le> hour (fst (getRemainingRequests windows identifier nowM nowH))
   \<and> (windows identifier = None \<longrightarrow>
        fst (getRemainingRequests windows identifier nowM nowH) = \<lparr>minute = 20, hour = 300\<rparr>)
   \<and> (windows identifier = None \<and> nowM - now < 60000 \<and> nowH - now < 3600000 \<longrightarrow>
        allowed (fst (canMakeRequest windows identifier now now1 now2))
        \<and> fst (getRemainingRequests (snd (canMakeRequest windows identifier now now1 now2))
                 identifier nowM nowH) = \<lparr>minute = 19, hour = 299\<rparr>)"
  by (simp add: getRemainingRequests_eq canMakeRequest_eq recorded_def)

text \<open>
  The two cases of the repository's tests: a new identifier, and one check before asking.
\<close>

theorem getRemainingRequests_reports_witness:
  "fst (getRemainingRequests Map.empty (js ''new-user'') 5 5) = \<lparr>minute = 20, hour = 300\<rparr>
   \<and> allowed (fst (canMakeRequest Map.empty (js ''test'') 1000 1000 1000))
   \<and> fst (getRemainingRequests (snd (canMakeRequest Map.empty (js ''test'') 1000 1000 1000))
          (js ''test'') 1001 1001) = \<lparr>minute = 19, hour = 299\<rparr>"
proof -
  have h1: "(Map.empty :: Windows) (js ''new-user'') = None"
    by simp
  have h2: "(Map.empty :: Windows) (js ''test'') = None \<and> (1001 :: int) - 1000 < 60000
    \<and> (1001 :: int) - 1000 < 3600000"
    by simp
  show ?thesis
    using getRemainingRequests_reports [of Map.empty "js ''new-user''" 5 5 0 0 0]
      getRemainingRequests_reports [of Map.empty "js ''test''" 1001 1001 1000 1000 1000] h1 h2
    by blast
qed

text \<open>
  C10. A check that returns \<open>allowed = False\<close> appends nothing: the identifier's list
  afterwards is the list before without the entries one hour old or older, and at every
  later pair of clock readings \<^verbatim>\<open>getRemainingRequests\<close> reports from the map after the
  call what it reports from the map before it. Only a check that returns
  \<open>allowed = True\<close> appends an instant, and no other identifier's entry changes.
\<close>

theorem rejected_check_consumes_nothing:
  "(\<not> allowed (fst (canMakeRequest windows identifier now nowH nowM)) \<longrightarrow>
      recorded (snd (canMakeRequest windows identifier now nowH nowM)) identifier
        = filter (\<lambda>t. nowH - t < 3600000) (recorded windows identifier)
      \<and> (nowH \<le> laterM \<and> nowH \<le> laterH \<longrightarrow>
           fst (getRemainingRequests (snd (canMakeRequest windows identifier now nowH nowM))
                  identifier laterM laterH)
           = fst (getRemainingRequests windows identifier laterM laterH)))
   \<and> (allowed (fst (canMakeRequest windows identifier now nowH nowM)) \<longrightarrow>
      recorded (snd (canMakeRequest windows identifier now nowH nowM)) identifier
        = filter (\<lambda>t. nowH - t < 3600000) (recorded windows identifier) @ [now])
   \<and> (other \<noteq> identifier \<longrightarrow>
      snd (canMakeRequest windows identifier now nowH nowM) other = windows other)"
proof -
  have M: "nowH \<le> laterM \<Longrightarrow>
    filter (\<lambda>t. nowH - t < 3600000 \<and> laterM - t < 60000) xs
      = filter (\<lambda>t. laterM - t < 60000) xs" for xs
    by (induction xs) auto
  have H: "nowH \<le> laterH \<Longrightarrow>
    filter (\<lambda>t. nowH - t < 3600000 \<and> laterH - t < 3600000) xs
      = filter (\<lambda>t. laterH - t < 3600000) xs" for xs
    by (induction xs) auto
  show ?thesis
    by (simp add: canMakeRequest_eq getRemainingRequests_eq Let_def recorded_upd M H)
qed

text \<open>
  A rejected check at a window that holds 20 instants of the last minute.
\<close>

theorem rejected_check_consumes_nothing_witness:
  "\<not> allowed (fst (canMakeRequest full (js ''x'') 1 1 1))
   \<and> recorded (snd (canMakeRequest full (js ''x'') 1 1 1)) (js ''x'')
       = filter (\<lambda>t. 1 - t < 3600000) (recorded full (js ''x''))
   \<and> fst (getRemainingRequests (snd (canMakeRequest full (js ''x'') 1 1 1)) (js ''x'') 2 2)
       = fst (getRemainingRequests full (js ''x'') 2 2)"
proof -
  have h: "\<not> allowed (fst (canMakeRequest full (js ''x'') 1 1 1))"
    by (simp add: canMakeRequest_eq recorded_def full_def)
  have l: "(1 :: int) \<le> 2 \<and> (1 :: int) \<le> 2"
    by simp
  show ?thesis
    using rejected_check_consumes_nothing [of full "js ''x''" 1 1 1 2 2 "js ''x''"] h l
    by blast
qed


section \<open>Properties of the PDF service\<close>

fun pending :: "utf8_state \<Rightarrow> bool" where
  "pending Start = False"
| "pending (Need n cp lower upper) = (1 \<le> n \<and> 0x80 \<le> lower \<and> 128 \<le> (cp * 64 + (lower - 0x80)) * 64 ^ (n - 1))"

lemma utf16_high: "128 \<le> cp \<Longrightarrow> \<not> list_all (\<lambda>u. u < 128) (utf16 cp)"
  by (simp add: utf16_def)

lemma utf8_start_cases:
  "(b < 128 \<and> utf8_start b = ([b], Start)) \<or>
   (128 \<le> b \<and> (utf8_start b = ([0xFFFD], Start) \<or> (fst (utf8_start b) = [] \<and> pending (snd (utf8_start b)))))"
  by (auto simp: utf8_start_def)

lemma utf8_run_pending:
  "pending s \<Longrightarrow> \<not> list_all (\<lambda>u. u < 128) (utf8_run s bs)"
proof (induction bs arbitrary: s)
  case Nil
  then show ?case by (cases s) simp_all
next
  case (Cons b bs)
  from Cons.prems obtain n cp lower upper where s: "s = Need n cp lower upper"
    by (cases s) simp_all
  from Cons.prems have n: "1 \<le> n" and lo: "128 \<le> lower"
    and big: "128 \<le> (cp * 64 + (lower - 0x80)) * 64 ^ (n - 1)"
    unfolding s pending.simps by blast+
  show ?case
  proof (cases "lower \<le> b \<and> b \<le> upper")
    case False
    then show ?thesis by (auto simp: s)
  next
    case True
    have mono: "cp * 64 + (lower - 0x80) \<le> cp * 64 + (b - 0x80)"
      using True by arith
    show ?thesis
    proof (cases "n = 1")
      case True
      have "128 \<le> cp * 64 + (b - 0x80)"
        using big mono True by simp
      then show ?thesis
        using \<open>lower \<le> b \<and> b \<le> upper\<close> True by (simp add: s utf16_high)
    next
      case False
      then obtain m where m: "n = Suc (Suc m)" using n by (cases n; cases "n - 1") simp_all
      define A where "A = cp * 64 + (lower - 0x80)"
      define B where "B = cp * 64 + (b - 0x80)"
      have "128 \<le> A * 64 ^ Suc m"
        using big by (simp add: m A_def)
      also have "\<dots> \<le> B * 64 ^ Suc m"
        using mono unfolding A_def B_def by (rule mult_right_mono) simp
      finally have "128 \<le> (B * 64 + (0x80 - 0x80)) * 64 ^ (Suc m - 1)"
        by (simp add: mult.assoc)
      then have "pending (Need (Suc m) B 0x80 0xBF)"
        unfolding pending.simps by simp
      then have "pending (Need (n - 1) (cp * 64 + (b - 0x80)) 0x80 0xBF)"
        by (simp only: m B_def diff_Suc_1)
      from Cons.IH [OF this] show ?thesis
        using \<open>lower \<le> b \<and> b \<le> upper\<close> False by (simp add: s)
    qed
  qed
qed

lemma utf8_run_ascii:
  "list_all (\<lambda>u. u < 128) (utf8_run Start bs) \<Longrightarrow> utf8_run Start bs = bs"
proof (induction bs)
  case Nil
  then show ?case by simp
next
  case (Cons b bs)
  from utf8_start_cases [of b] show ?case
  proof (elim disjE conjE)
    assume "b < 128" "utf8_start b = ([b], Start)"
    then show ?thesis using Cons by simp
  next
    assume "utf8_start b = ([0xFFFD], Start)" "128 \<le> b"
    then show ?thesis using Cons.prems by simp
  next
    assume "fst (utf8_start b) = []" "pending (snd (utf8_start b))"
    then show ?thesis using Cons.prems utf8_run_pending by simp
  qed
qed

lemma header_iff:
  "Buffer_toString bs = js ''%PDF'' \<longleftrightarrow> bs = [0x25, 0x50, 0x44, 0x46]"
proof
  assume a: "Buffer_toString bs = js ''%PDF''"
  then have "list_all (\<lambda>u. u < 128) (utf8_run Start (map unat bs))"
    by (simp add: Buffer_toString_def js_def)
  then have "utf8_run Start (map unat bs) = map unat bs"
    by (rule utf8_run_ascii)
  with a have "map unat bs = map unat [0x25, 0x50, 0x44, 0x46 :: byte]"
    by (simp add: Buffer_toString_def js_def)
  then show "bs = [0x25, 0x50, 0x44, 0x46]"
    by (simp only: inj_map_eq_map [OF inj_onI [OF iffD1 [OF word_unat_eq_iff [symmetric]]]])
next
  assume "bs = [0x25, 0x50, 0x44, 0x46]"
  then show "Buffer_toString bs = js ''%PDF''"
    by (simp add: Buffer_toString_def js_def utf8_start_def)
qed

lemma ascii_marker: "ascii ''%PDF'' = [0x25, 0x50, 0x44, 0x46]"
  by (simp add: ascii_def)

lemma sublist_too_large: "sublist (js ''too large'') (js ''PDF file too large (max 10MB)'')"
proof -
  have "js ''PDF file too large (max 10MB)'' = js ''PDF file '' @ js ''too large'' @ js '' (max 10MB)''"
    by (simp add: js_def)
  then show ?thesis unfolding sublist_def by blast
qed

text \<open>
  C4. A buffer whose first 4 bytes are not the ASCII marker \<^verbatim>\<open>%PDF\<close> (a shorter buffer
  included) is invalid with the reason "Invalid PDF format", whatever its length; a
  buffer with the marker and more than 10 MiB is invalid with a reason that contains
  "too large"; a buffer with the marker and at most 10 MiB is valid.
\<close>

theorem validatePDF_cases:
  "(take 4 buffer \<noteq> ascii ''%PDF'' \<longrightarrow>
      validatePDF buffer = \<lparr>isValid = False, error_pdf = Some (js ''Invalid PDF format'')\<rparr>)
   \<and> (take 4 buffer = ascii ''%PDF'' \<and> length buffer > 10 * 1024 * 1024 \<longrightarrow>
      validatePDF buffer = \<lparr>isValid = False, error_pdf = Some (js ''PDF file too large (max 10MB)'')\<rparr>
      \<and> sublist (js ''too large'') (js ''PDF file too large (max 10MB)''))
   \<and> (take 4 buffer = ascii ''%PDF'' \<and> length buffer \<le> 10 * 1024 * 1024 \<longrightarrow>
      validatePDF buffer = \<lparr>isValid = True, error_pdf = None\<rparr>)"
  by (simp add: validatePDF_def header_iff ascii_marker sublist_too_large Let_def)

text \<open>
  The buffers of the repository's tests: no marker, the marker with 11 MiB, the marker alone.
\<close>

theorem validatePDF_cases_witness:
  "validatePDF (ascii ''not a pdf'') = \<lparr>isValid = False, error_pdf = Some (js ''Invalid PDF format'')\<rparr>
   \<and> validatePDF (ascii ''%PDF-1.4'' @ replicate (11 * 1024 * 1024 - 8) 0)
       = \<lparr>isValid = False, error_pdf = Some (js ''PDF file too large (max 10MB)'')\<rparr>
   \<and> validatePDF (ascii ''%PDF-1.4'') = \<lparr>isValid = True, error_pdf = None\<rparr>"
proof -
  have h1: "take 4 (ascii ''not a pdf'') \<noteq> ascii ''%PDF''"
    by (simp add: ascii_def)
  have h2: "take 4 (ascii ''%PDF-1.4'' @ replicate (11 * 1024 * 1024 - 8) 0) = ascii ''%PDF''
    \<and> length (ascii ''%PDF-1.4'' @ replicate (11 * 1024 * 1024 - 8) (0 :: byte)) > 10 * 1024 * 1024"
    by (simp add: ascii_def)
  have h3: "take 4 (ascii ''%PDF-1.4'') = ascii ''%PDF''
    \<and> length (ascii ''%PDF-1.4'') \<le> 10 * 1024 * 1024"
    by (simp add: ascii_def)
  show ?thesis
    using validatePDF_cases [of "ascii ''not a pdf''"]
      validatePDF_cases [of "ascii ''%PDF-1.4'' @ replicate (11 * 1024 * 1024 - 8) 0"]
      validatePDF_cases [of "ascii ''%PDF-1.4''"] h1 h2 h3
    by blast
qed

lemma cleanText_example:
  "cleanText (js ''  Multiple'' @ [10, 10, 13, 10] @ js ''  spaces   and'' @ [13, 10] @ js ''line breaks  '')
  = js ''Multiple spaces and line breaks''"
  by (simp add: cleanText_def trim_def js_def isSpace_def)

text \<open>
  The shape of a cleaned text: every white space code unit is a space, and no two white
  space code units are adjacent.
\<close>

fun spaced :: "jsstring \<Rightarrow> bool" where
  "spaced [] = True"
| "spaced [c] = (isSpace c \<longrightarrow> c = 0x20)"
| "spaced (c # d # cs) = ((isSpace c \<longrightarrow> c = 0x20 \<and> \<not> isSpace d) \<and> spaced (d # cs))"

lemma spaced_Cons: "spaced (c # cs) \<longleftrightarrow>
  (isSpace c \<longrightarrow> c = 0x20 \<and> (cs = [] \<or> \<not> isSpace (hd cs))) \<and> spaced cs"
  by (cases cs) auto

lemma hd_replace_spaces:
  "cs \<noteq> [] \<Longrightarrow> \<not> isSpace (hd cs) \<Longrightarrow> replace_spaces cs \<noteq> [] \<and> hd (replace_spaces cs) = hd cs"
  by (cases cs) auto

lemma spaced_replace_spaces: "spaced (replace_spaces s)"
proof (induction s rule: replace_spaces.induct)
  case 1
  then show ?case by simp
next
  case (2 c cs)
  show ?case
  proof (cases "isSpace c")
    case True
    let ?r = "dropWhile isSpace cs"
    have "replace_spaces ?r = [] \<or> \<not> isSpace (hd (replace_spaces ?r))"
    proof (cases "?r = []")
      case True
      have "replace_spaces ?r = []" by (simp only: True replace_spaces.simps)
      then show ?thesis by blast
    next
      case False
      then have "\<not> isSpace (hd ?r)" by (rule hd_dropWhile)
      with False show ?thesis using hd_replace_spaces [of ?r] by simp
    qed
    then show ?thesis using 2 True by (simp add: spaced_Cons)
  next
    case False
    then show ?thesis using 2 by (simp add: spaced_Cons)
  qed
qed

lemma dropWhile_no_head: "cs = [] \<or> \<not> P (hd cs) \<Longrightarrow> dropWhile P cs = cs"
  by (cases cs) auto

lemma replace_spaces_spaced: "spaced s \<Longrightarrow> replace_spaces s = s"
proof (induction s)
  case Nil
  then show ?case by simp
next
  case (Cons c cs)
  then have IH: "replace_spaces cs = cs" by (simp add: spaced_Cons)
  show ?case
  proof (cases "isSpace c")
    case True
    with Cons.prems have "c = 0x20" and "cs = [] \<or> \<not> isSpace (hd cs)"
      by (simp_all add: spaced_Cons)
    then show ?thesis using True IH by (simp add: dropWhile_no_head)
  next
    case False
    then show ?thesis using IH by simp
  qed
qed

lemma isSpace_linebreak: "isSpace 0x0D" "isSpace 0x0A" "isSpace 0x20"
  by (simp_all add: isSpace_def)

lemma replace_linebreaks_spaced: "spaced s \<Longrightarrow> replace_linebreaks s = s"
proof (induction s rule: spaced.induct)
  case 1
  then show ?case by simp
next
  case (2 c)
  then show ?case using isSpace_linebreak by auto
next
  case (3 c d cs)
  then show ?case using isSpace_linebreak by auto
qed

lemma spaced_dropWhile: "spaced s \<Longrightarrow> spaced (dropWhile P s)"
  by (induction s) (auto simp: spaced_Cons)

lemma spaced_append: "spaced (xs @ ys) \<Longrightarrow> spaced xs"
  by (induction xs rule: spaced.induct) (auto simp: spaced_Cons)

lemma trimEnd_Cons:
  "rev (dropWhile P (rev (c # cs))) =
    (if list_all P (c # cs) then [] else c # rev (dropWhile P (rev cs)))"
  by (auto simp: dropWhile_append list_all_iff)

lemma spaced_trimEnd: "spaced s \<Longrightarrow> spaced (rev (dropWhile P (rev s)))"
proof -
  have "s = rev (dropWhile P (rev s)) @ rev (takeWhile P (rev s))"
    by (metis rev_append rev_rev_ident takeWhile_dropWhile_id)
  then show "spaced s \<Longrightarrow> spaced (rev (dropWhile P (rev s)))"
    using spaced_append by metis
qed

lemma spaced_trim: "spaced s \<Longrightarrow> spaced (trim s)"
  by (simp add: trim_def spaced_trimEnd spaced_dropWhile)

lemma trim_idem: "trim (trim s) = trim s"
proof -
  define t where "t = dropWhile isSpace s"
  define u where "u = dropWhile isSpace (rev t)"
  have u: "u = [] \<or> \<not> isSpace (hd u)"
    unfolding u_def using hd_dropWhile [of isSpace "rev t"] by blast
  have "t = [] \<or> \<not> isSpace (hd t)"
    unfolding t_def using hd_dropWhile [of isSpace s] by blast
  have ru: "rev u = [] \<or> \<not> isSpace (hd (rev u))"
  proof (cases "u = []")
    case True
    then show ?thesis by simp
  next
    case False
    have "rev t = takeWhile isSpace (rev t) @ u" by (simp add: u_def)
    then have "t = rev u @ rev (takeWhile isSpace (rev t))"
      by (metis rev_append rev_rev_ident)
    then have "hd t = hd (rev u)" using False by (metis hd_append2 rev_is_Nil_conv)
    moreover have "t \<noteq> []" using False u_def by auto
    ultimately show ?thesis using \<open>t = [] \<or> \<not> isSpace (hd t)\<close> by auto
  qed
  have 1: "dropWhile isSpace (rev u) = rev u"
    using ru by (cases "rev u") auto
  have 2: "dropWhile isSpace u = u"
    using u by (cases u) auto
  show ?thesis
    by (simp add: trim_def t_def [symmetric] u_def [symmetric] 1 2)
qed

text \<open>
  C9. \<^verbatim>\<open>cleanText\<close> is idempotent: cleaning a cleaned text changes nothing, for every
  string, where \<^verbatim>\<open>cleanText\<close> replaces each line break by a space, then each run of
  white space by one space, then trims both ends.
\<close>

theorem cleanText_idempotent: "cleanText (cleanText s) = cleanText s"
proof -
  have sp: "spaced (cleanText s)"
    by (simp add: cleanText_def spaced_trim spaced_replace_spaces)
  show ?thesis
    unfolding cleanText_def [of "cleanText s"]
    by (simp add: replace_linebreaks_spaced [OF sp] replace_spaces_spaced [OF sp])
       (simp add: cleanText_def trim_idem)
qed

section \<open>Properties of the response parser\<close>

lemmas js_eval = js_def isDigit_def digits_value_def scale10_def exponent_part_def json_number_def
  hexval_def lex_start_def word_token_def number_token_def escape_char_def after_token_def
  open_value_def close_array_def close_object_def take_key_def SyntaxError_message_def
  JSON_parse_def isHex_def radix_value_def StrDecimalLiteral_def StringToNumber_def
  ToNumber_def ToBoolean_def Math_min_def Math_max_def property_def or_default_def
  array_or_empty_def jsonString_def parseAIResponse_def trim_def isSpace_def Let_def

text \<open>
  The example of the specification: commentary before the object, a match above 100 and
  a string where a list is expected.
\<close>

lemma parseAIResponse_example:
  "parseAIResponse (js ''Here you go: {\"overallMatch\": 150, \"strengths\": \"not-a-list\"}'')
   = Inr \<lparr>overallMatch = Num 100, strengths = [], weaknesses = [], recommendations = [],
          keyAlignments = [], missingSkills = [], summary = JString (js ''Analysis completed'')\<rparr>"
  by (simp add: js_eval)


lemma regex_match_span:
  "0x7B \<notin> set lead \<Longrightarrow> 0x7D \<notin> set trail \<Longrightarrow>
   regex_match (lead @ 0x7B # mid @ 0x7D # trail) = Some (0x7B # mid @ [0x7D])"
proof (induction lead)
  case Nil
  have "dropWhile (\<lambda>x. x \<noteq> 0x7D) (rev trail @ 0x7D # rev mid) = 0x7D # rev mid"
    using Nil.prems(2) by (simp add: dropWhile_append)
  then show ?case by simp
next
  case (Cons p lead)
  then show ?case by simp
qed

lemma regex_match_none:
  "0x7B \<notin> set t \<or> 0x7D \<notin> set t \<Longrightarrow> regex_match t = None"
  by (induction t) auto

lemma ToNumber_throws: "(\<exists>e. ToNumber x = Inl e) \<longleftrightarrow> throwing x"
  by (cases x) (simp_all add: ToNumber_def)

lemma throwing_truthy: "throwing x \<Longrightarrow> or_default (Some x) d = x"
  by (cases x) (simp_all add: or_default_def ToBoolean_def)

lemma match_throws:
  "(\<exists>e. ToNumber (or_default v (JNumber 0)) = Inl e) \<longleftrightarrow> (\<exists>x. v = Some x \<and> throwing x)"
proof (cases v)
  case None
  then show ?thesis by (simp add: or_default_def ToNumber_def)
next
  case (Some x)
  show ?thesis
  proof (cases "throwing x")
    case True
    then show ?thesis using Some by (simp add: throwing_truthy ToNumber_throws)
  next
    case False
    have "or_default (Some x) (JNumber 0) = x \<or> or_default (Some x) (JNumber 0) = JNumber 0"
      by (simp add: or_default_def)
    then have "\<not> throwing (or_default (Some x) (JNumber 0))"
      using False by auto
    then show ?thesis using Some False by (simp add: ToNumber_throws)
  qed
qed

lemma parseAIResponse_fails_iff:
  "(\<exists>m. parseAIResponse t = Inl m) \<longleftrightarrow>
     (\<exists>e. JSON_parse (jsonString t) = Inl e)
     \<or> JSON_parse (jsonString t) = Inr JNull
     \<or> (\<exists>v x. JSON_parse (jsonString t) = Inr v
            \<and> property v (js ''overallMatch'') = Some x \<and> throwing x)"
proof (cases "JSON_parse (jsonString t)")
  case (Inl e)
  then show ?thesis by (simp add: parseAIResponse_def)
next
  case (Inr v)
  show ?thesis
  proof (cases "v = JNull")
    case True
    then show ?thesis using Inr by (simp add: parseAIResponse_def)
  next
    case False
    have "(\<exists>m. parseAIResponse t = Inl m)
        \<longleftrightarrow> (\<exists>e. ToNumber (or_default (property v (js ''overallMatch'')) (JNumber 0)) = Inl e)"
      using Inr False by (auto simp: parseAIResponse_def split: sum.splits)
    then show ?thesis using Inr False by (simp add: match_throws)
  qed
qed

lemma parseAIResponse_not_object:
  "JSON_parse (jsonString t) = Inr v \<Longrightarrow> v \<noteq> JNull \<Longrightarrow> \<forall>ms. v \<noteq> JObject ms \<Longrightarrow>
   parseAIResponse t = Inr defaults"
  by (cases v)
     (simp_all add: parseAIResponse_def property_def or_default_def array_or_empty_def
        ToNumber_def Math_max_def Math_min_def defaults_def)

text \<open>
  C5. \<^verbatim>\<open>parseAIResponse\<close> parses the text from the first opening brace through the
  last closing brace, and the whole text when it has no brace. It fails exactly when
  that text is not valid JSON, when it is \<^verbatim>\<open>null\<close>, or when the member
  \<^verbatim>\<open>overallMatch\<close> is an object or array that cannot be converted to a number;
  when the text is not valid JSON the message is "Failed to parse AI response: "
  followed by the parser's own. A text that is valid JSON but no object, and not
  \<^verbatim>\<open>null\<close>, does not fail: the result has every field at its default. In
  particular a text with neither brace that is not valid JSON fails.
\<close>

theorem parseAIResponse_recovery:
  "(0x7B \<notin> set lead \<and> 0x7D \<notin> set trail \<longrightarrow>
      jsonString (lead @ 0x7B # mid @ 0x7D # trail) = 0x7B # mid @ [0x7D])
   \<and> (0x7B \<notin> set t \<and> 0x7D \<notin> set t \<longrightarrow> jsonString t = t)
   \<and> ((\<exists>m. parseAIResponse t = Inl m) \<longleftrightarrow>
        (\<exists>e. JSON_parse (jsonString t) = Inl e)
        \<or> JSON_parse (jsonString t) = Inr JNull
        \<or> (\<exists>v x. JSON_parse (jsonString t) = Inr v
               \<and> property v (js ''overallMatch'') = Some x \<and> throwing x))
   \<and> (JSON_parse (jsonString t) = Inl e \<longrightarrow>
        parseAIResponse t = Inl (js ''Failed to parse AI response: '' @ e))
   \<and> (JSON_parse (jsonString t) = Inr v \<and> v \<noteq> JNull \<and> (\<forall>ms. v \<noteq> JObject ms) \<longrightarrow>
        parseAIResponse t = Inr defaults)
   \<and> (0x7B \<notin> set t \<and> 0x7D \<notin> set t \<and> JSON_parse t = Inl e \<longrightarrow>
        parseAIResponse t = Inl (js ''Failed to parse AI response: '' @ e))"
proof (intro conjI impI)
  show "(\<exists>m. parseAIResponse t = Inl m) \<longleftrightarrow>
        (\<exists>e. JSON_parse (jsonString t) = Inl e)
        \<or> JSON_parse (jsonString t) = Inr JNull
        \<or> (\<exists>v x. JSON_parse (jsonString t) = Inr v
               \<and> property v (js ''overallMatch'') = Some x \<and> throwing x)"
    by (rule parseAIResponse_fails_iff)
next
  assume "JSON_parse (jsonString t) = Inr v \<and> v \<noteq> JNull \<and> (\<forall>ms. v \<noteq> JObject ms)"
  then show "parseAIResponse t = Inr defaults"
    using parseAIResponse_not_object by blast
qed (auto simp: jsonString_def regex_match_span regex_match_none parseAIResponse_def)

lemma apology_no_braces:
  "0x7B \<notin> set (js ''Sorry, I cannot help.'') \<and> 0x7D \<notin> set (js ''Sorry, I cannot help.'')"
  by (simp add: js_eval)

lemma apology_not_json: "JSON_parse (js ''Sorry, I cannot help.'') = Inl SyntaxError_message"
  by (simp add: js_eval)

lemma list_reply: "JSON_parse (jsonString (js ''[1, 2]'')) = Inr (JArray [JNumber 1, JNumber 2])"
  by (simp add: js_eval)

text \<open>
  An object between two sentences, an apology with no JSON in it, and a list.
\<close>

theorem parseAIResponse_recovery_witness:
  "jsonString (js ''Here you go: '' @ 0x7B # js ''\"summary\": \"ok\"'' @ 0x7D # js '' Enjoy!'')
     = 0x7B # js ''\"summary\": \"ok\"'' @ [0x7D]
   \<and> jsonString (js ''Sorry, I cannot help.'') = js ''Sorry, I cannot help.''
   \<and> parseAIResponse (js ''Sorry, I cannot help.'')
       = Inl (js ''Failed to parse AI response: '' @ SyntaxError_message)
   \<and> parseAIResponse (js ''[1, 2]'') = Inr defaults
   \<and> \<not> (\<exists>m. parseAIResponse (js ''[1, 2]'') = Inl m)"
proof -
  have h1: "0x7B \<notin> set (js ''Here you go: '') \<and> 0x7D \<notin> set (js '' Enjoy!'')"
    by (simp add: js_eval)
  have h2: "JArray [JNumber 1, JNumber 2] \<noteq> JNull
    \<and> (\<forall>ms. JArray [JNumber 1, JNumber 2] \<noteq> JObject ms)"
    by simp
  have a: "parseAIResponse (js ''[1, 2]'') = Inr defaults"
    using parseAIResponse_recovery [of lead trail mid "js ''[1, 2]''" e
        "JArray [JNumber 1, JNumber 2]"] list_reply h2
    by blast
  have b: "jsonString (js ''Here you go: '' @ 0x7B # js ''\"summary\": \"ok\"'' @ 0x7D # js '' Enjoy!'')
     = 0x7B # js ''\"summary\": \"ok\"'' @ [0x7D]
   \<and> jsonString (js ''Sorry, I cannot help.'') = js ''Sorry, I cannot help.''
   \<and> parseAIResponse (js ''Sorry, I cannot help.'')
       = Inl (js ''Failed to parse AI response: '' @ SyntaxError_message)"
    using parseAIResponse_recovery [of "js ''Here you go: ''" "js '' Enjoy!''"
        "js ''\"summary\": \"ok\"''" "js ''Sorry, I cannot help.''" SyntaxError_message]
      h1 apology_no_braces apology_not_json
    by blast
  show ?thesis using a b by simp
qed

text \<open>
  C5, as the specification states it: the parser fails when no valid JSON object can
  be recovered. The reply \<^verbatim>\<open>42\<close> holds no object: it is parsed whole, as a number,
  and the parser returns the result with every field at its default.
\<close>

theorem parseAIResponse_number_succeeds:
  "JSON_parse (jsonString (js ''42'')) = Inr (JNumber 42)
   \<and> parseAIResponse (js ''42'')
     = Inr \<lparr>overallMatch = Num 0, strengths = [], weaknesses = [], recommendations = [],
          keyAlignments = [], missingSkills = [], summary = JString (js ''Analysis completed'')\<rparr>"
  by (simp add: js_eval)

text \<open>
  C2. The specification states that \<open>overallMatch\<close> is clamped into the range from 0
  to 100 and is 0 when the field is absent or not a number. At the reply below, where the model wrote
  the match as the string "85%", the code returns NaN: the string is truthy, so
  \<^verbatim>\<open>|| 0\<close> keeps it, and \<^verbatim>\<open>Math.min\<close> converts it to NaN.
\<close>

theorem parseAIResponse_non_numeric_match:
  "parseAIResponse (js ''{\"overallMatch\": \"85%\"}'')
   = Inr \<lparr>overallMatch = NaN, strengths = [], weaknesses = [], recommendations = [],
          keyAlignments = [], missingSkills = [], summary = JString (js ''Analysis completed'')\<rparr>"
  by (simp add: js_eval)

lemma clamp_number: "Math_max (Num 0) (Math_min (Num 100) (Num q)) = Num (max 0 (min 100 q))"
  by (simp add: Math_max_def Math_min_def)

text \<open>
  What holds of the fields when the parsed value is an object: an absent match is 0, a
  number is clamped, each list field is the array or empty, an absent summary is the
  placeholder.
\<close>

lemma parseAIResponse_object:
  assumes "JSON_parse (jsonString t) = Inr (JObject ms)"
  shows "(map_of ms (js ''overallMatch'') = None \<longrightarrow>
            (\<exists>r. parseAIResponse t = Inr r \<and> overallMatch r = Num 0))
    \<and> (map_of ms (js ''overallMatch'') = Some (JNumber q) \<longrightarrow>
            (\<exists>r. parseAIResponse t = Inr r \<and> overallMatch r = Num (max 0 (min 100 q))))
    \<and> (parseAIResponse t = Inr r \<longrightarrow>
          strengths r = array_or_empty (map_of ms (js ''strengths''))
          \<and> weaknesses r = array_or_empty (map_of ms (js ''weaknesses''))
          \<and> recommendations r = array_or_empty (map_of ms (js ''recommendations''))
          \<and> keyAlignments r = array_or_empty (map_of ms (js ''keyAlignments''))
          \<and> missingSkills r = array_or_empty (map_of ms (js ''missingSkills''))
          \<and> (map_of ms (js ''summary'') = None \<longrightarrow>
                 summary r = JString (js ''Analysis completed'')))"
  using assms
  by (auto simp: parseAIResponse_def property_def or_default_def ToBoolean_def ToNumber_def
        clamp_number split: sum.splits if_splits)

section \<open>Properties of the analysis request\<close>

lemma validatePDF_eq:
  "validatePDF buffer =
    (if take 4 buffer \<noteq> ascii ''%PDF'' then
       \<lparr>isValid = False, error_pdf = Some (js ''Invalid PDF format'')\<rparr>
     else if length buffer > 10 * 1024 * 1024 then
       \<lparr>isValid = False, error_pdf = Some (js ''PDF file too large (max 10MB)'')\<rparr>
     else \<lparr>isValid = True, error_pdf = None\<rparr>)"
  by (simp add: validatePDF_def header_iff ascii_marker Let_def)

lemma trim_cleanText: "trim (cleanText s) = cleanText s"
  by (simp add: cleanText_def trim_idem)

text \<open>
  C6. When the first 4 bytes of the CV buffer are not \<^verbatim>\<open>%PDF\<close>, the request fails
  with a BAD_REQUEST error, no collaborator is called (the record of calls is empty),
  the rate limiter's map is untouched, and the outcome is the same whatever the
  environment, the collaborators and the clock are. When the job description is valid
  the message names the CV.
\<close>

theorem invalid_cv_fails_before_extraction:
  "take 4 cv \<noteq> ascii ''%PDF'' \<longrightarrow>
     (\<exists>m. analyzeCandidateMatch env world clock windows jobDescription cv
            = (Inl (TRPCError BAD_REQUEST m), windows, []))
     \<and> analyzeCandidateMatch env world clock windows jobDescription cv
         = analyzeCandidateMatch env' world' clock' windows jobDescription cv
     \<and> (isValid (validatePDF jobDescription) \<longrightarrow>
          fst (analyzeCandidateMatch env world clock windows jobDescription cv)
            = Inl (TRPCError BAD_REQUEST (js ''CV PDF error: Invalid PDF format'')))"
  by (simp add: analyzeCandidateMatch_def validatePDF_eq [of cv] Let_def reason_text_def)
     (simp add: js_def)

text \<open>
  A valid job description with a CV that is no PDF, under two different worlds.
\<close>

theorem invalid_cv_fails_before_extraction_witness:
  "analyzeCandidateMatch gemini_with_key mock_world (frozen 0) Map.empty
      (ascii ''%PDF-1.4'') (ascii ''fake pdf content'')
    = (Inl (TRPCError BAD_REQUEST (js ''CV PDF error: Invalid PDF format'')), Map.empty, [])
   \<and> analyzeCandidateMatch gemini_with_key mock_world (frozen 0) Map.empty
      (ascii ''%PDF-1.4'') (ascii ''fake pdf content'')
    = analyzeCandidateMatch no_credentials failing_world slow_call Map.empty
      (ascii ''%PDF-1.4'') (ascii ''fake pdf content'')"
proof -
  have h: "take 4 (ascii ''fake pdf content'') \<noteq> ascii ''%PDF''"
    by (simp add: ascii_def)
  have v: "isValid (validatePDF (ascii ''%PDF-1.4''))"
    by (simp add: validatePDF_eq ascii_def)
  from invalid_cv_fails_before_extraction [of "ascii ''fake pdf content''" gemini_with_key
      mock_world "frozen 0" Map.empty "ascii ''%PDF-1.4''" no_credentials failing_world slow_call]
    h v
  show ?thesis by (metis fst_conv)
qed


text \<open>
  The definitions that evaluate one request at a concrete input.
\<close>

lemmas run_eval = analyzeCandidateMatch_def analyzeCandidate_def validatePDF_eq ascii_def
  extractText_def cleanText_def validateAIConfiguration_def useWolf_def falsy_def rethrow_def
  new_AIService_def or_string_def first_text_def canMakeRequest_eq getRemainingRequests_eq
  recorded_def reason_text_def AnalysisResult.extend_def AnalysisOutput.fields_def

text \<open>
  C3, as the specification states it: a missing credential is a startup-time error and
  never a per-request failure. With no credential configured, a request with two
  valid, readable documents fails with the INTERNAL_SERVER_ERROR that names the missing
  API key, and the constructor of the service returns with an empty key.
\<close>

theorem missing_credential_fails_request:
  "analyzeCandidateMatch no_credentials mock_world (frozen 0) Map.empty
      (ascii ''%PDF-1.4'') (ascii ''%PDF-1.4'')
   = (Inl (TRPCError INTERNAL_SERVER_ERROR (js ''Google Gemini API key not configured'')),
      Map.empty, [PdfParse (ascii ''%PDF-1.4''), PdfParse (ascii ''%PDF-1.4'')])
   \<and> apiKey (new_AIService no_credentials None) = []"
  by (simp add: run_eval js_eval no_credentials_def mock_world_def)

text \<open>
  C3, as the code has it: the credential of the selected endpoint is checked on every
  request. Once both documents have passed validation, extraction and the check for
  readable text, a missing bearer token (Wolf endpoint) or a missing API key (Gemini
  endpoint) fails the request with an INTERNAL_SERVER_ERROR that names it, before the
  rate limiter is consulted and before any request is sent.
\<close>

theorem missing_credential_per_request:
  "isValid (validatePDF jobDescription) \<and> isValid (validatePDF cv)
   \<and> pdf world jobDescription = Parsed tj nj \<and> pdf world cv = Parsed tc nc
   \<and> cleanText tj \<noteq> [] \<and> cleanText tc \<noteq> []
   \<and> (if useWolf env then falsy (GEMINI_WOLF_AUTH_TOKEN env) else falsy (GEMINI_API_KEY env))
   \<longrightarrow>
   analyzeCandidateMatch env world clock windows jobDescription cv
   = (Inl (TRPCError INTERNAL_SERVER_ERROR
            (if useWolf env then js ''Wolf endpoint auth token not configured''
             else js ''Google Gemini API key not configured'')),
      windows, [PdfParse jobDescription, PdfParse cv])"
  by (simp add: analyzeCandidateMatch_def extractText_def trim_cleanText validateAIConfiguration_def
        rethrow_def Let_def)

text \<open>
  The Wolf endpoint selected, and no bearer token.
\<close>

theorem missing_credential_per_request_witness:
  "analyzeCandidateMatch wolf_without_token mock_world (frozen 0) Map.empty
      (ascii ''%PDF-1.4'') (ascii ''%PDF-1.4'')
   = (Inl (TRPCError INTERNAL_SERVER_ERROR (js ''Wolf endpoint auth token not configured'')),
      Map.empty, [PdfParse (ascii ''%PDF-1.4''), PdfParse (ascii ''%PDF-1.4'')])"
proof -
  have v: "isValid (validatePDF (ascii ''%PDF-1.4''))"
    by (simp add: validatePDF_eq ascii_def)
  have p: "pdf mock_world (ascii ''%PDF-1.4'') = Parsed (js ''Senior engineer'') 2"
    by (simp add: mock_world_def)
  have c: "cleanText (js ''Senior engineer'') \<noteq> []"
    by (simp add: cleanText_def js_eval)
  have w: "useWolf wolf_without_token \<and> falsy (GEMINI_WOLF_AUTH_TOKEN wolf_without_token)"
    by (simp add: useWolf_def falsy_def wolf_without_token_def)
  from missing_credential_per_request [of "ascii ''%PDF-1.4''" "ascii ''%PDF-1.4''" mock_world
      "js ''Senior engineer''" 2 "js ''Senior engineer''" 2 wolf_without_token "frozen 0" Map.empty]
    v p c w
  show ?thesis by simp
qed

text \<open>
  C7, as the specification states it: the remaining minute count after a successful analysis is the count
  before it less 1. Here one request was recorded at instant 0; just before the call,
  at 59000, 19 remain; the check is taken at 59500, the reply arrives two seconds
  later, and at 61500 the old request has left the window: 19 remain again.
\<close>

theorem remaining_not_decremented:
  "fst (analyzeCandidateMatch gemini_with_key mock_world slow_call one_request
      (ascii ''%PDF-1.4'') (ascii ''%PDF-1.4''))
   = Inr \<lparr>overallMatch = Num 70, strengths = [], weaknesses = [], recommendations = [],
          keyAlignments = [], missingSkills = [], summary = JString (js ''Analysis completed''),
          metadata = \<lparr>jobDescriptionPages = 2, cvPages = 2, analysisTimestamp = 61500,
             remainingRequests = \<lparr>minute = 19, hour = 298\<rparr>,
             endpointUsed = js ''Google Gemini''\<rparr>\<rparr>
   \<and> fst (getRemainingRequests one_request (js ''default'') 59000 59000)
       = \<lparr>minute = 19, hour = 299\<rparr>"
  by (simp add: run_eval js_eval gemini_with_key_def mock_world_def slow_call_def one_request_def)

lemma minute_after_allowed:
  assumes mono: "preM \<le> rM" "cH \<le> rM" "cM \<le> rM"
    and fresh: "rM - now < 60000"
    and stable: "\<forall>t \<in> set (recorded windows i). preM - t < 60000 \<longrightarrow> rM - t < 60000"
    and ok: "allowed (fst (canMakeRequest windows i now cH cM))"
  shows "minute (fst (getRemainingRequests (snd (canMakeRequest windows i now cH cM)) i rM rH))
       = minute (fst (getRemainingRequests windows i preM preH)) - 1"
proof -
  let ?old = "recorded windows i"
  let ?pruned = "filter (\<lambda>t. cH - t < 3600000) ?old"
  have few: "length (filter (\<lambda>t. cM - t < 60000) ?pruned) < 20"
    using ok by (simp add: canMakeRequest_eq Let_def split: if_splits)
  have after: "snd (canMakeRequest windows i now cH cM) = windows(i \<mapsto> \<lparr>requests = ?pruned @ [now]\<rparr>)"
    using ok by (simp add: canMakeRequest_eq Let_def split: if_splits)
  have same: "filter (\<lambda>t. rM - t < 60000) ?pruned = filter (\<lambda>t. preM - t < 60000) ?old"
    unfolding filter_filter
  proof (rule filter_cong [OF refl])
    fix t assume "t \<in> set ?old"
    with stable have "preM - t < 60000 \<longrightarrow> rM - t < 60000" by blast
    then show "(cH - t < 3600000 \<and> rM - t < 60000) = (preM - t < 60000)"
      using mono by auto
  qed
  have le: "length (filter (\<lambda>t. rM - t < 60000) ?pruned)
      \<le> length (filter (\<lambda>t. cM - t < 60000) ?pruned)"
  proof -
    have "filter (\<lambda>t. rM - t < 60000) ?pruned
        = filter (\<lambda>t. rM - t < 60000) (filter (\<lambda>t. cM - t < 60000) ?pruned)"
      unfolding filter_filter using mono by (intro filter_cong) auto
    then show ?thesis by (metis length_filter_le)
  qed
  have "length (filter (\<lambda>t. preM - t < 60000) ?old)
      = length (filter (\<lambda>t. rM - t < 60000) ?pruned)"
    by (simp only: same)
  with few le have k: "length (filter (\<lambda>t. preM - t < 60000) ?old) < 20"
    by linarith
  have one: "filter (\<lambda>t. rM - t < 60000) (?pruned @ [now])
      = filter (\<lambda>t. preM - t < 60000) ?old @ [now]"
    using fresh by (simp only: filter_append same) simp
  have "minute (fst (getRemainingRequests (windows(i \<mapsto> \<lparr>requests = ?pruned @ [now]\<rparr>)) i rM rH))
      = max 0 (20 - int (length (filter (\<lambda>t. rM - t < 60000) (?pruned @ [now]))))"
    by (simp only: getRemainingRequests_eq recorded_upd fst_conv Remaining.simps)
  also have "\<dots> = max 0 (20 - int (length (filter (\<lambda>t. preM - t < 60000) ?old))) - 1"
    using k by (simp only: one) simp
  also have "\<dots> = minute (fst (getRemainingRequests windows i preM preH)) - 1"
    by (simp only: getRemainingRequests_eq fst_conv Remaining.simps)
  finally show ?thesis by (simp only: after)
qed

text \<open>
  Without other requests, the request among others is the request alone.
\<close>

lemma analyzeCandidate_alone:
  "analyzeCandidate service send clock windows cvText jobDescriptionText =
    (case analyzeCandidate_among service send clock [] windows cvText jobDescriptionText of
       (outcome, windows', sent, others) \<Rightarrow> (outcome, windows', sent))"
  by (simp add: analyzeCandidate_def analyzeCandidate_among_def Let_def case_prod_beta)

lemma analyzeCandidateMatch_alone:
  "analyzeCandidateMatch env world clock windows jobDescription cv =
    (case analyzeCandidateMatch_among env world clock nobody windows jobDescription cv of
       (outcome, windows', sent, others) \<Rightarrow> (outcome, windows', sent))"
  by (simp add: analyzeCandidateMatch_def analyzeCandidateMatch_among_def analyzeCandidate_alone
        nobody_def Let_def case_prod_beta
      split: sum.splits if_splits)

text \<open>
  What a successful request among others implies: both extractions returned, the check
  allowed, and the metadata holds the page counts and the counts read after the checks
  that other requests made while the gateway was awaited.
\<close>

lemma among_inversion:
  assumes "analyzeCandidateMatch_among env world clock others windows jobDescription cv
    = (Inr out, windows', calls, rs)"
  shows "\<exists>tj nj tc nc.
    pdf world jobDescription = Parsed tj nj \<and> pdf world cv = Parsed tc nc
    \<and> allowed (fst (canMakeRequest (snd (checks windows (js ''default'') (during_extraction others)))
          (js ''default'') (check_now clock) (check_hour clock) (check_minute clock)))
    \<and> jobDescriptionPages (metadata out) = nj \<and> cvPages (metadata out) = nc
    \<and> remainingRequests (metadata out) =
        fst (getRemainingRequests
              (snd (checks
                 (snd (canMakeRequest (snd (checks windows (js ''default'') (during_extraction others)))
                    (js ''default'') (check_now clock) (check_hour clock) (check_minute clock)))
                 (js ''default'') (during_gateway others)))
              (js ''default'') (remaining_minute clock) (remaining_hour clock))
    \<and> rs = fst (checks windows (js ''default'') (during_extraction others))
         @ fst (checks
                 (snd (canMakeRequest (snd (checks windows (js ''default'') (during_extraction others)))
                    (js ''default'') (check_now clock) (check_hour clock) (check_minute clock)))
                 (js ''default'') (during_gateway others))"
  using assms
  unfolding analyzeCandidateMatch_among_def analyzeCandidate_among_def extractText_def Let_def
  by (auto simp: AnalysisResult.extend_def AnalysisOutput.fields_def case_prod_beta
        split: if_splits sum.splits prod.splits PdfOutcome.splits HttpOutcome.splits option.splits)

lemma minute_eq:
  "minute (fst (getRemainingRequests w i q qH))
   = max 0 (20 - int (length (filter (\<lambda>t. q - t < 60000) (recorded w i))))"
  by (simp add: getRemainingRequests_eq)

lemma rejected_minute_view:
  assumes "\<not> allowed (fst (canMakeRequest w i n nH nM))" and "nH \<le> q"
  shows "filter (\<lambda>t. q - t < 60000) (recorded (snd (canMakeRequest w i n nH nM)) i)
       = filter (\<lambda>t. q - t < 60000) (recorded w i)"
proof -
  have "recorded (snd (canMakeRequest w i n nH nM)) i = filter (\<lambda>t. nH - t < 3600000) (recorded w i)"
    using assms(1) by (simp add: canMakeRequest_eq Let_def recorded_upd split: if_splits)
  moreover have "filter (\<lambda>t. q - t < 60000) (filter (\<lambda>t. nH - t < 3600000) (recorded w i))
      = filter (\<lambda>t. q - t < 60000) (recorded w i)"
    unfolding filter_filter using assms(2) by (intro filter_cong) auto
  ultimately show ?thesis by (simp only:)
qed

lemma rejected_checks_minute_view:
  "list_all (\<lambda>r. \<not> allowed r) (fst (checks w i cs)) \<Longrightarrow> list_all (\<lambda>c. fst (snd c) \<le> q) cs \<Longrightarrow>
   filter (\<lambda>t. q - t < 60000) (recorded (snd (checks w i cs)) i)
     = filter (\<lambda>t. q - t < 60000) (recorded w i)"
proof (induction cs arbitrary: w)
  case Nil
  then show ?case by simp
next
  case (Cons c cs)
  obtain n nH nM where c: "c = (n, nH, nM)" by (cases c) auto
  let ?w = "snd (canMakeRequest w i n nH nM)"
  from Cons.prems have r: "\<not> allowed (fst (canMakeRequest w i n nH nM))"
    and rest: "list_all (\<lambda>r. \<not> allowed r) (fst (checks ?w i cs))"
    and le: "nH \<le> q" and les: "list_all (\<lambda>c. fst (snd c) \<le> q) cs"
    by (simp_all add: c case_prod_beta)
  have "filter (\<lambda>t. q - t < 60000) (recorded (snd (checks ?w i cs)) i)
      = filter (\<lambda>t. q - t < 60000) (recorded ?w i)"
    using rest les by (rule Cons.IH)
  also have "\<dots> = filter (\<lambda>t. q - t < 60000) (recorded w i)"
    using r le by (rule rejected_minute_view)
  finally show ?case by (simp add: c case_prod_beta)
qed

lemma minute_among_others:
  assumes mono: "preM \<le> rM" "cH \<le> rM" "cM \<le> rM"
    and fresh: "rM - now < 60000"
    and stable: "\<forall>t \<in> set (recorded windows i). preM - t < 60000 \<longrightarrow> rM - t < 60000"
    and early: "list_all (\<lambda>r. \<not> allowed r) (fst (checks windows i ex))"
      "list_all (\<lambda>c. fst (snd c) \<le> rM) ex"
    and ok: "allowed (fst (canMakeRequest (snd (checks windows i ex)) i now cH cM))"
    and late: "list_all (\<lambda>r. \<not> allowed r)
        (fst (checks (snd (canMakeRequest (snd (checks windows i ex)) i now cH cM)) i gw))"
      "list_all (\<lambda>c. fst (snd c) \<le> rM) gw"
  shows "minute (fst (getRemainingRequests
            (snd (checks (snd (canMakeRequest (snd (checks windows i ex)) i now cH cM)) i gw))
            i rM rH))
       = minute (fst (getRemainingRequests windows i preM preH)) - 1"
proof -
  let ?w1 = "snd (checks windows i ex)"
  let ?w2 = "snd (canMakeRequest ?w1 i now cH cM)"
  let ?w3 = "snd (checks ?w2 i gw)"
  have "minute (fst (getRemainingRequests ?w3 i rM rH)) = minute (fst (getRemainingRequests ?w2 i rM rH))"
    using late by (simp only: minute_eq rejected_checks_minute_view)
  also have "\<dots> = minute (fst (getRemainingRequests ?w1 i rM rH)) - 1"
    using mono(2,3) fresh ok by (intro minute_after_allowed) simp_all
  also have "minute (fst (getRemainingRequests ?w1 i rM rH))
      = minute (fst (getRemainingRequests windows i rM rH))"
    using early by (simp only: minute_eq rejected_checks_minute_view)
  also have "\<dots> = minute (fst (getRemainingRequests windows i preM preH))"
  proof -
    have "filter (\<lambda>t. rM - t < 60000) (recorded windows i)
        = filter (\<lambda>t. preM - t < 60000) (recorded windows i)"
      using stable mono(1) by (intro filter_cong) auto
    then show ?thesis by (simp only: minute_eq)
  qed
  finally show ?thesis .
qed

lemmas among_eval = analyzeCandidateMatch_among_def analyzeCandidate_among_def validatePDF_eq
  ascii_def extractText_def cleanText_def validateAIConfiguration_def useWolf_def falsy_def
  rethrow_def new_AIService_def or_string_def first_text_def canMakeRequest_eq
  getRemainingRequests_eq recorded_def reason_text_def AnalysisResult.extend_def
  AnalysisOutput.fields_def

text \<open>
  A request at a window that holds 19 instants, with one other check, which is
  rejected, while the gateway is awaited.
\<close>

lemma last_run:
  "fst (analyzeCandidateMatch_among gemini_with_key mock_world ticking one_other nearly_full
      (ascii ''%PDF-1.4'') (ascii ''%PDF-1.4'')) = Inr last_output
   \<and> snd (snd (snd (analyzeCandidateMatch_among gemini_with_key mock_world ticking one_other
      nearly_full (ascii ''%PDF-1.4'') (ascii ''%PDF-1.4''))))
     = [\<lparr>allowed = False, error = Some (js ''Rate limit exceeded: 20 requests per minute'')\<rparr>]"
  by (simp add: among_eval js_eval gemini_with_key_def mock_world_def ticking_def one_other_def
        nearly_full_def last_output_def)

text \<open>
  The first request of a process under a clock that stands still, with one other
  check, which is allowed, while the gateway is awaited: 20 remain before the call and
  18 are reported.
\<close>

lemma admitted_other:
  "fst (analyzeCandidateMatch_among gemini_with_key mock_world (frozen 1000)
      \<lparr>during_extraction = [], during_gateway = [(1000, 1000, 1000)]\<rparr> Map.empty
      (ascii ''%PDF-1.4'') (ascii ''%PDF-1.4''))
   = Inr \<lparr>overallMatch = Num 70, strengths = [], weaknesses = [], recommendations = [],
          keyAlignments = [], missingSkills = [], summary = JString (js ''Analysis completed''),
          metadata = \<lparr>jobDescriptionPages = 2, cvPages = 2, analysisTimestamp = 1000,
             remainingRequests = \<lparr>minute = 18, hour = 298\<rparr>,
             endpointUsed = js ''Google Gemini''\<rparr>\<rparr>
   \<and> fst (getRemainingRequests Map.empty (js ''default'') 1000 1000)
       = \<lparr>minute = 20, hour = 300\<rparr>"
  by (simp add: among_eval js_eval gemini_with_key_def mock_world_def frozen_def)

text \<open>
  C7, as the code has it: on a successful analysis the metadata holds the page counts
  that extraction returned for the two documents, and the remaining minute count is
  the count before the call less 1 provided that the clock does not run backwards
  between the reading before the call and the reading for the metadata, that no
  recorded instant (the one of this call included) leaves the 60-second window in
  between, and that no check of another request is allowed in between.
\<close>

theorem successful_analysis_metadata:
  "analyzeCandidateMatch_among env world clock others windows jobDescription cv
     = (Inr out, windows', calls, checked)
   \<longrightarrow>
   (\<exists>tj tc. pdf world jobDescription = Parsed tj (jobDescriptionPages (metadata out))
       \<and> pdf world cv = Parsed tc (cvPages (metadata out)))
   \<and> (preM \<le> remaining_minute clock \<and> check_hour clock \<le> remaining_minute clock
        \<and> check_minute clock \<le> remaining_minute clock
        \<and> remaining_minute clock - check_now clock < 60000
        \<and> (\<forall>t \<in> set (recorded windows (js ''default'')).
               preM - t < 60000 \<longrightarrow> remaining_minute clock - t < 60000)
        \<and> list_all (\<lambda>r. \<not> allowed r) checked
        \<and> list_all (\<lambda>c. fst (snd c) \<le> remaining_minute clock)
              (during_extraction others @ during_gateway others)
        \<longrightarrow>
        minute (remainingRequests (metadata out))
          = minute (fst (getRemainingRequests windows (js ''default'') preM preH)) - 1)"
proof (intro impI)
  assume a: "analyzeCandidateMatch_among env world clock others windows jobDescription cv
     = (Inr out, windows', calls, checked)"
  let ?d = "js ''default''"
  let ?w1 = "snd (checks windows ?d (during_extraction others))"
  let ?w2 = "snd (canMakeRequest ?w1 ?d (check_now clock) (check_hour clock) (check_minute clock))"
  from among_inversion [OF a] obtain tj nj tc nc where
    p: "pdf world jobDescription = Parsed tj nj" "pdf world cv = Parsed tc nc"
    and ok: "allowed (fst (canMakeRequest ?w1 ?d (check_now clock) (check_hour clock)
          (check_minute clock)))"
    and n: "jobDescriptionPages (metadata out) = nj" "cvPages (metadata out) = nc"
    and r: "remainingRequests (metadata out) =
        fst (getRemainingRequests (snd (checks ?w2 ?d (during_gateway others)))
              ?d (remaining_minute clock) (remaining_hour clock))"
    and c: "checked = fst (checks windows ?d (during_extraction others))
         @ fst (checks ?w2 ?d (during_gateway others))"
    by blast
  show "(\<exists>tj tc. pdf world jobDescription = Parsed tj (jobDescriptionPages (metadata out))
       \<and> pdf world cv = Parsed tc (cvPages (metadata out)))
   \<and> (preM \<le> remaining_minute clock \<and> check_hour clock \<le> remaining_minute clock
        \<and> check_minute clock \<le> remaining_minute clock
        \<and> remaining_minute clock - check_now clock < 60000
        \<and> (\<forall>t \<in> set (recorded windows (js ''default'')).
               preM - t < 60000 \<longrightarrow> remaining_minute clock - t < 60000)
        \<and> list_all (\<lambda>r. \<not> allowed r) checked
        \<and> list_all (\<lambda>c. fst (snd c) \<le> remaining_minute clock)
              (during_extraction others @ during_gateway others)
        \<longrightarrow>
        minute (remainingRequests (metadata out))
          = minute (fst (getRemainingRequests windows (js ''default'') preM preH)) - 1)"
  proof (intro conjI impI)
    show "\<exists>tj tc. pdf world jobDescription = Parsed tj (jobDescriptionPages (metadata out))
       \<and> pdf world cv = Parsed tc (cvPages (metadata out))"
      using p n by blast
  next
    assume h: "preM \<le> remaining_minute clock \<and> check_hour clock \<le> remaining_minute clock
        \<and> check_minute clock \<le> remaining_minute clock
        \<and> remaining_minute clock - check_now clock < 60000
        \<and> (\<forall>t \<in> set (recorded windows (js ''default'')).
               preM - t < 60000 \<longrightarrow> remaining_minute clock - t < 60000)
        \<and> list_all (\<lambda>r. \<not> allowed r) checked
        \<and> list_all (\<lambda>c. fst (snd c) \<le> remaining_minute clock)
              (during_extraction others @ during_gateway others)"
    then have early: "list_all (\<lambda>r. \<not> allowed r) (fst (checks windows ?d (during_extraction others)))"
      and late: "list_all (\<lambda>r. \<not> allowed r) (fst (checks ?w2 ?d (during_gateway others)))"
      and le1: "list_all (\<lambda>c. fst (snd c) \<le> remaining_minute clock) (during_extraction others)"
      and le2: "list_all (\<lambda>c. fst (snd c) \<le> remaining_minute clock) (during_gateway others)"
      by (simp_all add: c)
    show "minute (remainingRequests (metadata out))
          = minute (fst (getRemainingRequests windows (js ''default'') preM preH)) - 1"
      unfolding r using h ok early late le1 le2 by (intro minute_among_others) blast+
  qed
qed

text \<open>
  The request at 19 recorded instants: 1 remains before the call, the check of the
  other request is rejected, and 0 is reported.
\<close>

theorem successful_analysis_metadata_witness:
  "(\<exists>tj tc. pdf mock_world (ascii ''%PDF-1.4'') = Parsed tj (jobDescriptionPages (metadata last_output))
       \<and> pdf mock_world (ascii ''%PDF-1.4'') = Parsed tc (cvPages (metadata last_output)))
   \<and> minute (remainingRequests (metadata last_output))
       = minute (fst (getRemainingRequests nearly_full (js ''default'') 1000 1000)) - 1
   \<and> minute (remainingRequests (metadata last_output)) = 0"
proof -
  let ?run = "analyzeCandidateMatch_among gemini_with_key mock_world ticking one_other nearly_full
      (ascii ''%PDF-1.4'') (ascii ''%PDF-1.4'')"
  have run: "?run = (Inr last_output, fst (snd ?run), fst (snd (snd ?run)),
      [\<lparr>allowed = False, error = Some (js ''Rate limit exceeded: 20 requests per minute'')\<rparr>])"
    using last_run by (metis prod.collapse)
  have h: "(1000 :: int) \<le> remaining_minute ticking
    \<and> check_hour ticking \<le> remaining_minute ticking
    \<and> check_minute ticking \<le> remaining_minute ticking
    \<and> remaining_minute ticking - check_now ticking < 60000
    \<and> (\<forall>t \<in> set (recorded nearly_full (js ''default'')).
           1000 - t < 60000 \<longrightarrow> remaining_minute ticking - t < 60000)
    \<and> list_all (\<lambda>r. \<not> allowed r)
          [\<lparr>allowed = False, error = Some (js ''Rate limit exceeded: 20 requests per minute'')\<rparr>]
    \<and> list_all (\<lambda>c. fst (snd c) \<le> remaining_minute ticking)
          (during_extraction one_other @ during_gateway one_other)"
    by (simp add: ticking_def recorded_def nearly_full_def one_other_def)
  have z: "minute (remainingRequests (metadata last_output)) = 0"
    by (simp add: last_output_def)
  from successful_analysis_metadata [of gemini_with_key mock_world ticking one_other nearly_full
      "ascii ''%PDF-1.4''" "ascii ''%PDF-1.4''" last_output "fst (snd ?run)" "fst (snd (snd ?run))"
      "[\<lparr>allowed = False, error = Some (js ''Rate limit exceeded: 20 requests per minute'')\<rparr>]"
      1000 1000] run h z
  show ?thesis by blast
qed

end
